theory Spec2Isabelle
  imports Complex_Main
begin

section \<open>The projection handler of api-getactivities/main.go\<close>

text \<open>
  The handler \<^verbatim>\<open>getStravaData\<close> of \<^verbatim>\<open>src/api-getactivities/main.go\<close> (lines 318 to 2397)
  joins a roster listing, a crosswalk of player ids, a table of simulations, a table of
  odds and a table of team averages into a list of projection records. This theory embeds
  three of its branches, each as the source writes it: the NFL classic branch (lines 849
  to 1076), the NFL showdown branch (lines 1078 to 1310) and the MLB pitchers branch for
  DraftKings (lines 1312 to 1572), and the activity loop of the handler in
  \<^verbatim>\<open>src/unnamed/part_000\<close> (lines 237 to 270).

  Conventions. A Go \<^verbatim>\<open>map[string]T\<close> is a partial function from strings; reading a
  missing key gives the zero value of \<^verbatim>\<open>T\<close>, as in Go. A \<^verbatim>\<open>float64\<close> decoded by
  \<^verbatim>\<open>encoding/json\<close> is a finite number (the decoder rejects NaN and out-of-range
  literals), so decoded floats are rationals here; comparisons with the integer
  constants of the source are exact on them. Go's \<^verbatim>\<open>int\<close> is \<^typ>\<open>int\<close>; the one place
  where the source multiplies one writes the 64-bit wrap-around out. A panic is a value
  \<open>Inl\<close> of a sum type. The records keep the fields the properties below speak about;
  the season statistics, weather and biography fields, which the source copies from the
  tables without looking at them, are left out.
\<close>

subsection \<open>The histogram of a score sample\<close>

text \<open>
  Lines 888 to 925 (again at 659, 1122, 1340 and in every service branch): eight counters
  start at zero, the loop over the sample increments one of them through the chain of
  \<^verbatim>\<open>if ... else if\<close>, and the counters are appended to \<^verbatim>\<open>tempPointsList\<close> in order.
  The counters are Go \<^verbatim>\<open>int\<close>s; a counter never exceeds the length of the sample, which
  is below \<open>2^63\<close>, so they do not wrap.
\<close>

record counters =
  t_lessthan0 :: int
  t_one_nine :: int
  t_ten_nineteen :: int
  t_twt_twtnine :: int
  t_thr_thrnine :: int
  t_for_fornine :: int
  t_fft_fftnine :: int
  t_sixty_plus :: int

definition zero_counters :: counters where
  "zero_counters =
     \<lparr>t_lessthan0 = 0, t_one_nine = 0, t_ten_nineteen = 0, t_twt_twtnine = 0,
      t_thr_thrnine = 0, t_for_fornine = 0, t_fft_fftnine = 0, t_sixty_plus = 0\<rparr>"

text \<open>One pass of the loop body. The last \<^verbatim>\<open>else if\<close> has no \<^verbatim>\<open>else\<close>: the final branch
  of the model leaves the counters as they are.\<close>

definition count_value :: "rat \<Rightarrow> counters \<Rightarrow> counters" where
  "count_value v c =
     (if v \<le> 0 then c\<lparr>t_lessthan0 := t_lessthan0 c + 1\<rparr>
      else if v \<ge> 0 \<and> v < 10 then c\<lparr>t_one_nine := t_one_nine c + 1\<rparr>
      else if v \<ge> 10 \<and> v < 20 then c\<lparr>t_ten_nineteen := t_ten_nineteen c + 1\<rparr>
      else if v \<ge> 20 \<and> v < 30 then c\<lparr>t_twt_twtnine := t_twt_twtnine c + 1\<rparr>
      else if v \<ge> 30 \<and> v < 40 then c\<lparr>t_thr_thrnine := t_thr_thrnine c + 1\<rparr>
      else if v \<ge> 40 \<and> v < 50 then c\<lparr>t_for_fornine := t_for_fornine c + 1\<rparr>
      else if v \<ge> 50 \<and> v < 60 then c\<lparr>t_fft_fftnine := t_fft_fftnine c + 1\<rparr>
      else if v \<ge> 60 then c\<lparr>t_sixty_plus := t_sixty_plus c + 1\<rparr>
      else c)"

fun count_values :: "rat list \<Rightarrow> counters \<Rightarrow> counters" where
  "count_values [] c = c"
| "count_values (v # vs) c = count_values vs (count_value v c)"

definition tempPointsList :: "counters \<Rightarrow> int list" where
  "tempPointsList c =
     [t_lessthan0 c, t_one_nine c, t_ten_nineteen c, t_twt_twtnine c,
      t_thr_thrnine c, t_for_fornine c, t_fft_fftnine c, t_sixty_plus c]"

definition points_histogram :: "rat list \<Rightarrow> int list" where
  "points_histogram vs = tempPointsList (count_values vs zero_counters)"

subsection \<open>Strings and the tables read by key\<close>

text \<open>
  \<^verbatim>\<open>fmt.Sprint\<close> of a Go \<^verbatim>\<open>int\<close> is its decimal numeral, with a minus sign for a negative
  one. Between two operands \<^verbatim>\<open>fmt.Sprint\<close> adds a space only when neither is a string;
  in every call modelled here one operand of each adjacent pair is a string, so the
  operands are concatenated as they are.
\<close>

definition digit_char :: "nat \<Rightarrow> char" where
  "digit_char d = ''0123456789'' ! (d mod 10)"

fun sprint_nat :: "nat \<Rightarrow> string" where
  "sprint_nat n =
     (if n < 10 then [digit_char n] else sprint_nat (n div 10) @ [digit_char (n mod 10)])"

declare sprint_nat.simps [simp del]

definition sprint_int :: "int \<Rightarrow> string" where
  "sprint_int i = (if i < 0 then CHR ''-'' # sprint_nat (nat (- i)) else sprint_nat (nat i))"

text \<open>\<^verbatim>\<open>strings.Contains(s, sub)\<close>: \<open>sub\<close> starts at some position of \<open>s\<close>.\<close>

fun strings_Contains :: "string \<Rightarrow> string \<Rightarrow> bool" where
  "strings_Contains [] sub = (sub = [])"
| "strings_Contains (c # cs) sub =
     (take (length sub) (c # cs) = sub \<or> strings_Contains cs sub)"

text \<open>
  Modelled from the spec: \<^verbatim>\<open>implContains\<close>, the membership helper the handler calls on
  the slice of keys already emitted, is not under \<^verbatim>\<open>src/\<close>. The spec (section 4.6)
  describes the test as "its UID is already present in the set".
\<close>

definition implContains :: "string list \<Rightarrow> string \<Rightarrow> bool" where
  "implContains keys k = (k \<in> set keys)"

text \<open>
  The declarations of the table types (\<^verbatim>\<open>ServiceKey\<close>, \<^verbatim>\<open>NFLplayersims\<close>,
  \<^verbatim>\<open>MLBpitchers\<close>, \<^verbatim>\<open>ODDSteam\<close>, \<^verbatim>\<open>TeamPoints\<close>, \<^verbatim>\<open>DKdraftables\<close>) are not under
  \<^verbatim>\<open>src/\<close>; the fields below are the ones the handler reads, typed by how it uses them
  (an id passed to \<^verbatim>\<open>fmt.Sprint\<close> and multiplied is an \<^verbatim>\<open>int\<close>, a value compared with
  \<^verbatim>\<open>"true"\<close> is a string, a value divided is a \<^verbatim>\<open>float64\<close>).
\<close>

record ServiceKey =
  PlayerID :: int
  Dkid :: int
  Fdid :: string

definition zero_ServiceKey :: ServiceKey where
  "zero_ServiceKey = \<lparr>PlayerID = 0, Dkid = 0, Fdid = []\<rparr>"

definition Keys_at :: "(string \<rightharpoonup> ServiceKey) \<Rightarrow> string \<Rightarrow> ServiceKey" where
  "Keys_at Keys k = (case Keys k of None \<Rightarrow> zero_ServiceKey | Some key \<Rightarrow> key)"

record PlayerGameAttribute =
  Id_attr :: int
  Value_attr :: string

text \<open>One entry \<open>s\<close> of \<^verbatim>\<open>draftables.Draftables\<close>; \<open>StartTime\<close> is \<^verbatim>\<open>s.Competition.StartTime\<close>.\<close>

record Draftable =
  PlayerDkId :: int
  DisplayName :: string
  Position :: string
  Status :: string
  Salary :: int
  RosterSlotId :: int
  PlayerGameAttributes :: "PlayerGameAttribute list"
  StartTime :: string

subsection \<open>The NFL branches\<close>

record NFLplayersim =
  Game_team_name :: string
  Dk_classic_points_mean :: rat
  Dk_classic_points_list :: "rat list"
  Dk_classic_points_std :: rat
  Dk_classic_cume_points :: rat
  Dk_showdown_points_mean :: rat
  Dk_showdown_points_list :: "rat list"
  Dk_showdown_points_std :: rat
  Dk_showdown_cume_points :: rat
  Game_opp_id :: int
  Game_opp_name :: string
  Game_points_for :: rat
  Game_points_against :: rat
  Game_venue_id :: int
  Game_venue_name :: string

definition zero_NFLplayersim :: NFLplayersim where
  "zero_NFLplayersim =
     \<lparr>Game_team_name = [], Dk_classic_points_mean = 0, Dk_classic_points_list = [],
      Dk_classic_points_std = 0, Dk_classic_cume_points = 0, Dk_showdown_points_mean = 0,
      Dk_showdown_points_list = [], Dk_showdown_points_std = 0, Dk_showdown_cume_points = 0,
      Game_opp_id = 0, Game_opp_name = [], Game_points_for = 0, Game_points_against = 0,
      Game_venue_id = 0, Game_venue_name = []\<rparr>"

definition nfl_players_at :: "(string \<rightharpoonup> NFLplayersim) \<Rightarrow> string \<Rightarrow> NFLplayersim" where
  "nfl_players_at nfl_players k =
     (case nfl_players k of None \<Rightarrow> zero_NFLplayersim | Some sim \<Rightarrow> sim)"

record NflPlayer =
  Full_name :: string
  Nfl_id :: string
  Team_name :: string
  Inlineup :: bool
  Status :: string
  Salary :: int
  RosterSlotId :: int
  Lineup_selected :: int
  ProjPoints :: rat
  ProjPointsList :: "int list"
  Game_gameDate :: string
  Game_game_Pk :: int
  Game_opponent :: int
  Game_opponent_name :: string
  Game_player_oddsfactor :: rat
  Game_team_oddspoints :: rat
  Game_opponent_oddspoints :: rat
  Game_s_deviation :: rat
  Games_sim_cume_points :: rat
  Game_venue :: int
  Game_venue_name :: string
  Draftable_uid :: string

text \<open>Lines 526 to 616; \<^verbatim>\<open>Draftable_uid\<close> is not assigned there and keeps Go's zero value.\<close>

definition defaultNFLPlayer :: NflPlayer where
  "defaultNFLPlayer =
     \<lparr>NflPlayer.Full_name = ''None'', Nfl_id = ''0'', NflPlayer.Team_name = ''None'',
      Inlineup = False, NflPlayer.Status = ''None'', NflPlayer.Salary = 0,
      NflPlayer.RosterSlotId = 0, NflPlayer.Lineup_selected = 0, NflPlayer.ProjPoints = 0,
      NflPlayer.ProjPointsList = [0, 0, 0, 0, 0, 0, 0, 0], NflPlayer.Game_gameDate = ''None'',
      NflPlayer.Game_game_Pk = 0, NflPlayer.Game_opponent = 0,
      NflPlayer.Game_opponent_name = ''None'', NflPlayer.Game_player_oddsfactor = 0,
      NflPlayer.Game_team_oddspoints = 0, NflPlayer.Game_opponent_oddspoints = 0,
      NflPlayer.Game_s_deviation = 0, NflPlayer.Games_sim_cume_points = 0,
      NflPlayer.Game_venue = 0, NflPlayer.Game_venue_name = ''None'',
      NflPlayer.Draftable_uid = []\<rparr>"

text \<open>Lines 870 to 877: in the lineup unless an attribute with id 100 has the value
  \<^verbatim>\<open>"false"\<close>.\<close>

fun inlineup_attrs :: "PlayerGameAttribute list \<Rightarrow> bool \<Rightarrow> bool" where
  "inlineup_attrs [] b = b"
| "inlineup_attrs (a # as) b =
     inlineup_attrs as
       (if Id_attr a = 100 then (if Value_attr a = ''false'' then False else b) else b)"

text \<open>Lines 851 to 1065, the body of the classic loop up to the gate.\<close>

definition nfl_classic_player ::
  "(string \<rightharpoonup> ServiceKey) \<Rightarrow> (string \<rightharpoonup> NFLplayersim) \<Rightarrow> Draftable \<Rightarrow> NflPlayer" where
  "nfl_classic_player Keys nfl_players s =
     (let nfl_lookup = PlayerID (Keys_at Keys (sprint_int (PlayerDkId s)));
          sim = nfl_players_at nfl_players (sprint_int nfl_lookup);
          p = defaultNFLPlayer
            \<lparr>NflPlayer.Full_name := DisplayName s,
             Nfl_id := sprint_int nfl_lookup,
             NflPlayer.Team_name := Game_team_name sim,
             Inlineup := inlineup_attrs (PlayerGameAttributes s) True,
             NflPlayer.Status :=
               (if Position s = ''D'' \<or> Position s = ''DEF'' then ''None''
                else Draftable.Status s),
             NflPlayer.Salary := Draftable.Salary s,
             NflPlayer.RosterSlotId := Draftable.RosterSlotId s,
             NflPlayer.Lineup_selected := 0,
             NflPlayer.ProjPoints := Dk_classic_points_mean sim,
             NflPlayer.ProjPointsList := points_histogram (Dk_classic_points_list sim),
             NflPlayer.Game_gameDate := StartTime s,
             NflPlayer.Game_game_Pk := 1,
             NflPlayer.Game_opponent := Game_opp_id sim,
             NflPlayer.Game_opponent_name := Game_opp_name sim,
             NflPlayer.Game_player_oddsfactor := 1,
             NflPlayer.Game_team_oddspoints := Game_points_for sim,
             NflPlayer.Game_opponent_oddspoints := Game_points_against sim,
             NflPlayer.Game_s_deviation := Dk_classic_points_std sim,
             NflPlayer.Games_sim_cume_points := Dk_classic_cume_points sim,
             NflPlayer.Game_venue := Game_venue_id sim,
             NflPlayer.Game_venue_name := NFLplayersim.Game_venue_name sim\<rparr>
      in p\<lparr>NflPlayer.Draftable_uid :=
             sprint_int (PlayerDkId s) @ ''_'' @ sprint_int nfl_lookup @ ''_'' @ Position s
               @ ''_'' @ ''_'' @ Nfl_id p @ ''_'' @ sprint_int (NflPlayer.Salary p)\<rparr>)"

text \<open>The accumulators \<^verbatim>\<open>FinalNFLPlayerKeys\<close> and \<^verbatim>\<open>FinalNFLPlayers.Data\<close>, and the gate
  of lines 1067 to 1072 (again at 838 and 1301).\<close>

record nfl_out =
  FinalNFLPlayerKeys :: "string list"
  FinalNFLPlayers :: "NflPlayer list"

definition nfl_gate :: "NflPlayer \<Rightarrow> nfl_out \<Rightarrow> nfl_out" where
  "nfl_gate p out =
     (if implContains (FinalNFLPlayerKeys out) (NflPlayer.Draftable_uid p) then out
      else if \<not> Inlineup p then out
      else out\<lparr>FinalNFLPlayerKeys := FinalNFLPlayerKeys out @ [NflPlayer.Draftable_uid p],
               FinalNFLPlayers := FinalNFLPlayers out @ [p]\<rparr>)"

text \<open>The gate applied to a list of assembled records in order: what the loops of the
  two branches do once each slot's record is assembled.\<close>

fun gate_records :: "NflPlayer list \<Rightarrow> nfl_out \<Rightarrow> nfl_out" where
  "gate_records [] out = out"
| "gate_records (p # ps) out = gate_records ps (nfl_gate p out)"

text \<open>The invariant of the accumulators: the keys are the keys of the records emitted.\<close>

definition keys_match :: "nfl_out \<Rightarrow> bool" where
  "keys_match out =
     (FinalNFLPlayerKeys out = map NflPlayer.Draftable_uid (FinalNFLPlayers out))"

fun nfl_classic_loop ::
  "(string \<rightharpoonup> ServiceKey) \<Rightarrow> (string \<rightharpoonup> NFLplayersim) \<Rightarrow> Draftable list \<Rightarrow> nfl_out \<Rightarrow> nfl_out"
  where
  "nfl_classic_loop Keys nfl_players [] out = out"
| "nfl_classic_loop Keys nfl_players (s # ss) out =
     nfl_classic_loop Keys nfl_players ss
       (nfl_gate (nfl_classic_player Keys nfl_players s) out)"

definition empty_nfl_out :: nfl_out where
  "empty_nfl_out = \<lparr>FinalNFLPlayerKeys = [], FinalNFLPlayers = []\<rparr>"

text \<open>What the classic branch hands to \<^verbatim>\<open>c.IndentedJSON\<close> (line 1075).\<close>

definition nfl_classic ::
  "(string \<rightharpoonup> ServiceKey) \<Rightarrow> (string \<rightharpoonup> NFLplayersim) \<Rightarrow> Draftable list \<Rightarrow> NflPlayer list"
  where
  "nfl_classic Keys nfl_players draftables =
     FinalNFLPlayers (nfl_classic_loop Keys nfl_players draftables empty_nfl_out)"

text \<open>Lines 1080 to 1299, the body of the showdown loop up to the gate. The two tests on
  the roster slot are separate \<^verbatim>\<open>if\<close>s, applied one after the other.\<close>

definition nfl_showdown_player ::
  "(string \<rightharpoonup> ServiceKey) \<Rightarrow> (string \<rightharpoonup> NFLplayersim) \<Rightarrow> Draftable \<Rightarrow> NflPlayer" where
  "nfl_showdown_player Keys nfl_players s =
     (let nfl_lookup = PlayerID (Keys_at Keys (sprint_int (PlayerDkId s)));
          sim = nfl_players_at nfl_players (sprint_int nfl_lookup);
          p0 = defaultNFLPlayer
            \<lparr>NflPlayer.Full_name := DisplayName s,
             Nfl_id := sprint_int nfl_lookup,
             NflPlayer.Team_name := Game_team_name sim\<rparr>;
          p1 = (if Draftable.RosterSlotId s = 511
                then p0\<lparr>Nfl_id := sprint_int nfl_lookup @ ''_511''\<rparr> else p0);
          p2 = (if Draftable.RosterSlotId s = 512
                then p1\<lparr>Nfl_id := sprint_int nfl_lookup @ ''_512''\<rparr> else p1);
          p = p2
            \<lparr>Inlineup := inlineup_attrs (PlayerGameAttributes s) True,
             NflPlayer.Status :=
               (if Position s = ''D'' \<or> Position s = ''DEF'' then ''None''
                else Draftable.Status s),
             NflPlayer.Salary := Draftable.Salary s,
             NflPlayer.RosterSlotId := Draftable.RosterSlotId s,
             NflPlayer.Lineup_selected := 0,
             NflPlayer.ProjPoints := Dk_showdown_points_mean sim,
             NflPlayer.ProjPointsList := points_histogram (Dk_showdown_points_list sim),
             NflPlayer.Game_gameDate := StartTime s,
             NflPlayer.Game_game_Pk := 1,
             NflPlayer.Game_opponent := Game_opp_id sim,
             NflPlayer.Game_opponent_name := Game_opp_name sim,
             NflPlayer.Game_player_oddsfactor := 1,
             NflPlayer.Game_team_oddspoints := Game_points_for sim,
             NflPlayer.Game_opponent_oddspoints := Game_points_against sim,
             NflPlayer.Game_s_deviation := Dk_showdown_points_std sim,
             NflPlayer.Games_sim_cume_points := Dk_showdown_cume_points sim,
             NflPlayer.Game_venue := Game_venue_id sim,
             NflPlayer.Game_venue_name := NFLplayersim.Game_venue_name sim\<rparr>
      in p\<lparr>NflPlayer.Draftable_uid :=
             sprint_int (PlayerDkId s) @ ''_'' @ sprint_int nfl_lookup @ ''_'' @ Position s
               @ ''_'' @ ''_'' @ Nfl_id p @ ''_'' @ sprint_int (NflPlayer.Salary p)\<rparr>)"

fun nfl_showdown_loop ::
  "(string \<rightharpoonup> ServiceKey) \<Rightarrow> (string \<rightharpoonup> NFLplayersim) \<Rightarrow> Draftable list \<Rightarrow> nfl_out \<Rightarrow> nfl_out"
  where
  "nfl_showdown_loop Keys nfl_players [] out = out"
| "nfl_showdown_loop Keys nfl_players (s # ss) out =
     nfl_showdown_loop Keys nfl_players ss
       (nfl_gate (nfl_showdown_player Keys nfl_players s) out)"

definition nfl_showdown ::
  "(string \<rightharpoonup> ServiceKey) \<Rightarrow> (string \<rightharpoonup> NFLplayersim) \<Rightarrow> Draftable list \<Rightarrow> NflPlayer list"
  where
  "nfl_showdown Keys nfl_players draftables =
     FinalNFLPlayers (nfl_showdown_loop Keys nfl_players draftables empty_nfl_out)"

subsection \<open>The MLB pitchers branch for DraftKings\<close>

text \<open>
  A \<^verbatim>\<open>time.Time\<close> is an instant, counted here in nanoseconds since the Unix epoch;
  \<^verbatim>\<open>time.Hour\<close> is \<open>3600 * 10^9\<close> of them, \<^verbatim>\<open>time.Unix(sec, 0)\<close> is \<open>sec * 10^9\<close> and
  \<^verbatim>\<open>a.After(b)\<close> is \<open>b < a\<close>. \<^verbatim>\<open>time.Parse(time.RFC3339, _)\<close> belongs to Go's library,
  not to this repository: the functions below take it as the parameter \<open>parse\<close>, with
  \<open>None\<close> for a string it rejects.
\<close>

type_synonym time = int

definition time_Hour :: int where
  "time_Hour = 3600000000000"

definition time_Unix :: "int \<Rightarrow> time" where
  "time_Unix sec = sec * 1000000000"

definition After :: "time \<Rightarrow> time \<Rightarrow> bool" where
  "After a b = (b < a)"

text \<open>The two ways the branch panics: \<^verbatim>\<open>panic(err)\<close> after a failed \<^verbatim>\<open>time.Parse\<close>, and
  Go's run-time panic on an index past the end of a slice.\<close>

datatype fault = ParseError | IndexOutOfRange

text \<open>
  The result of a \<^verbatim>\<open>float64\<close> division. The operands are decoded numbers, hence finite;
  the quotient of a finite number by zero is an infinity, or NaN for \<open>0 / 0\<close>, and Go
  raises no panic for it. The quotient by a non-zero number is rounded by the hardware:
  \<open>rnd\<close> stands for that rounding and is a parameter. (The tables decode no negative
  zero from a missing key or an SQL average, so the sign of an infinity is the sign of
  the numerator.)
\<close>

datatype float64 = Finite rat | PosInf | NegInf | NaN

definition float64_div :: "(rat \<Rightarrow> float64) \<Rightarrow> rat \<Rightarrow> rat \<Rightarrow> float64" where
  "float64_div rnd x y =
     (if y = 0 then (if x = 0 then NaN else if 0 < x then PosInf else NegInf)
      else rnd (x / y))"

record OddsGame =
  Commence_time :: int
  Points :: rat

text \<open>\<^verbatim>\<open>oddsDat[k].Games\<close>: the slice is \<^verbatim>\<open>nil\<close> for a missing key.\<close>

definition odds_Games :: "(string \<rightharpoonup> OddsGame list) \<Rightarrow> string \<Rightarrow> OddsGame list" where
  "odds_Games oddsDat k = (case oddsDat k of None \<Rightarrow> [] | Some games \<Rightarrow> games)"

record TeamPoints =
  TeamID :: int
  Avg_points :: rat

definition TeamKeys_at :: "(string \<rightharpoonup> TeamPoints) \<Rightarrow> string \<Rightarrow> TeamPoints" where
  "TeamKeys_at TeamKeys k =
     (case TeamKeys k of None \<Rightarrow> \<lparr>TeamID = 0, Avg_points = 0\<rparr> | Some team \<Rightarrow> team)"

record MLBgame =
  GameDate :: string
  Draftkings_proj_points :: rat
  Dk_points_list :: "rat list"
  Draftkings_cume_points :: rat
  Game_Pk :: int
  Game_no :: int
  Opp_prob_phand :: string
  Opp_prob_pitcher :: int
  Opponent :: int
  Opponent_name :: string
  S_deviation :: rat
  Sim_cume_games :: int
  Venue :: int

record MLBpitcher =
  Team_id :: string
  Team_name :: string
  Games :: "MLBgame list"

definition pitchers_at :: "(string \<rightharpoonup> MLBpitcher) \<Rightarrow> string \<Rightarrow> MLBpitcher" where
  "pitchers_at pitchers k =
     (case pitchers k of
        None \<Rightarrow> \<lparr>Team_id = [], MLBpitcher.Team_name = [], Games = []\<rparr>
      | Some sim \<Rightarrow> sim)"

record Pitcher =
  ProbablePitcher :: bool
  LikelyPitcher :: bool
  Status :: string
  Game_gameDate :: string
  ProjPoints :: rat
  ProjPointsList :: "int list"
  Games_sim_cume_points :: rat
  Game_game_Pk :: int
  Game_game_no :: int
  Game_opp_prob_phand :: string
  Game_opp_prob_pitcher :: int
  Game_opponent :: int
  Game_opponent_name :: string
  Game_s_deviation :: rat
  Game_sim_cume_games :: int
  Game_venue :: int
  Game_team_oddspoints :: rat
  Game_player_oddsfactor :: float64
  Game_opponent_oddspoints :: rat
  Full_name :: string
  Mlb_id :: int
  Team_name :: string
  Salary :: int
  RosterSlotId :: int
  Lineup_selected :: int
  Draftable_uid :: string

text \<open>\<^verbatim>\<open>var FinalPitcher Pitcher\<close> (line 496): Go's zero value.\<close>

definition zero_Pitcher :: Pitcher where
  "zero_Pitcher =
     \<lparr>ProbablePitcher = False, LikelyPitcher = False, Pitcher.Status = [],
      Pitcher.Game_gameDate = [], Pitcher.ProjPoints = 0, Pitcher.ProjPointsList = [],
      Pitcher.Games_sim_cume_points = 0, Pitcher.Game_game_Pk = 0, Game_game_no = 0,
      Game_opp_prob_phand = [], Game_opp_prob_pitcher = 0, Pitcher.Game_opponent = 0,
      Pitcher.Game_opponent_name = [], Pitcher.Game_s_deviation = 0,
      Game_sim_cume_games = 0, Pitcher.Game_venue = 0, Pitcher.Game_team_oddspoints = 0,
      Pitcher.Game_player_oddsfactor = Finite 0, Pitcher.Game_opponent_oddspoints = 0,
      Pitcher.Full_name = [], Mlb_id = 0, Pitcher.Team_name = [], Pitcher.Salary = 0,
      Pitcher.RosterSlotId = 0, Pitcher.Lineup_selected = 0, Pitcher.Draftable_uid = []\<rparr>"

text \<open>Lines 1326 to 1336.\<close>

fun pitcher_attrs :: "PlayerGameAttribute list \<Rightarrow> Pitcher \<Rightarrow> Pitcher" where
  "pitcher_attrs [] fp = fp"
| "pitcher_attrs (a # as) fp =
     pitcher_attrs as
       (if Id_attr a = 1 then (if Value_attr a = ''true'' then fp\<lparr>ProbablePitcher := True\<rparr> else fp)
        else if Id_attr a = 137 then
          (if Value_attr a = ''true'' then fp\<lparr>LikelyPitcher := True\<rparr> else fp)
        else fp)"

text \<open>Lines 1324, 1325 and 1337 to 1360: what the branch assigns before it scans the
  games. \<^verbatim>\<open>ProjPointsList\<close> is not among the fields assigned here.\<close>

definition pitcher_reset :: "Draftable \<Rightarrow> Pitcher \<Rightarrow> Pitcher" where
  "pitcher_reset s fp =
     (pitcher_attrs (PlayerGameAttributes s) (fp\<lparr>ProbablePitcher := False, LikelyPitcher := False\<rparr>))
       \<lparr>Pitcher.Status := Draftable.Status s,
        Pitcher.Game_gameDate := [],
        Pitcher.ProjPoints := 0,
        Pitcher.Games_sim_cume_points := 0,
        Pitcher.Game_game_Pk := 0,
        Game_game_no := 0,
        Game_opp_prob_phand := ''R'',
        Game_opp_prob_pitcher := 0,
        Pitcher.Game_opponent := 0,
        Pitcher.Game_opponent_name := [],
        Pitcher.Game_s_deviation := 0,
        Game_sim_cume_games := 0,
        Pitcher.Game_venue := 0,
        Pitcher.Game_team_oddspoints := 0,
        Pitcher.Game_player_oddsfactor := Finite 0,
        Pitcher.Game_opponent_oddspoints := 0\<rparr>"

text \<open>
  Lines 1368 to 1377, the scan of the team's odds. The \<^verbatim>\<open>break\<close> of line 1376 is not
  under the \<^verbatim>\<open>if\<close>: the body runs for the entry at index 0 and the loop ends, so \<open>ix\<close> is
  0 wherever it is read. The opponent's slice is indexed without a test of its length.
\<close>

definition odds_scan ::
  "(rat \<Rightarrow> float64) \<Rightarrow> (string \<rightharpoonup> OddsGame list) \<Rightarrow> (string \<rightharpoonup> TeamPoints) \<Rightarrow> string \<Rightarrow>
   MLBgame \<Rightarrow> time \<Rightarrow> Pitcher \<Rightarrow> fault + Pitcher" where
  "odds_scan rnd oddsDat TeamKeys tmpTeamId g_value gameTime fp =
     (case odds_Games oddsDat tmpTeamId of
        [] \<Rightarrow> Inr fp
      | odds_values # _ \<Rightarrow>
          if After gameTime (time_Unix (Commence_time odds_values)) then
            (case odds_Games oddsDat (sprint_int (Opponent g_value)) of
               [] \<Rightarrow> Inl IndexOutOfRange
             | opp_values # _ \<Rightarrow>
                 Inr (fp\<lparr>Pitcher.Game_team_oddspoints := Points odds_values,
                         Pitcher.Game_player_oddsfactor :=
                           float64_div rnd (Points odds_values)
                             (Avg_points (TeamKeys_at TeamKeys tmpTeamId)),
                         Pitcher.Game_opponent_oddspoints := Points opp_values\<rparr>))
          else Inr fp)"

text \<open>Lines 1379 to 1517 for \<^verbatim>\<open>contextService == "draftkings"\<close>, which the condition of
  line 1312 fixes in this branch. The eight counters were set to zero at lines 1340 to
  1347 and nothing has changed them since.\<close>

definition select_game :: "MLBgame \<Rightarrow> Pitcher \<Rightarrow> Pitcher" where
  "select_game g_value fp =
     fp\<lparr>Pitcher.Game_gameDate := GameDate g_value,
        Pitcher.ProjPoints := Draftkings_proj_points g_value,
        Pitcher.ProjPointsList := points_histogram (Dk_points_list g_value),
        Pitcher.Games_sim_cume_points := Draftkings_cume_points g_value,
        Pitcher.Game_game_Pk := Game_Pk g_value,
        Game_game_no := Game_no g_value,
        Game_opp_prob_phand := Opp_prob_phand g_value,
        Game_opp_prob_pitcher := Opp_prob_pitcher g_value,
        Pitcher.Game_opponent := Opponent g_value,
        Pitcher.Game_opponent_name := Opponent_name g_value,
        Pitcher.Game_s_deviation := S_deviation g_value,
        Game_sim_cume_games := Sim_cume_games g_value,
        Pitcher.Game_venue := Venue g_value\<rparr>"

text \<open>Lines 1361 to 1520, the loop over the athlete's games; \<open>t\<close> is the parsed start
  time of the slot. The \<^verbatim>\<open>break\<close> of line 1518 ends the loop at the first game taken.\<close>

fun game_loop ::
  "(string \<Rightarrow> time option) \<Rightarrow> (rat \<Rightarrow> float64) \<Rightarrow> (string \<rightharpoonup> OddsGame list) \<Rightarrow>
   (string \<rightharpoonup> TeamPoints) \<Rightarrow> string \<Rightarrow> time \<Rightarrow> MLBgame list \<Rightarrow> Pitcher \<Rightarrow> fault + Pitcher"
  where
  "game_loop parse rnd oddsDat TeamKeys tmpTeamId t [] fp = Inr fp"
| "game_loop parse rnd oddsDat TeamKeys tmpTeamId t (g_value # gs) fp =
     (case parse (GameDate g_value) of
        None \<Rightarrow> Inl ParseError
      | Some parsed \<Rightarrow>
          (let gameTime = parsed + time_Hour in
           case odds_scan rnd oddsDat TeamKeys tmpTeamId g_value gameTime fp of
             Inl e \<Rightarrow> Inl e
           | Inr fp' \<Rightarrow>
               if After gameTime t then Inr (select_game g_value fp')
               else game_loop parse rnd oddsDat TeamKeys tmpTeamId t gs fp'))"

text \<open>A Go \<^verbatim>\<open>int\<close> product wraps at 64 bits.\<close>

definition int64_wrap :: "int \<Rightarrow> int" where
  "int64_wrap x = (x + 2 ^ 63) mod 2 ^ 64 - 2 ^ 63"

text \<open>Lines 1522 to 1561 without the fields left out: the identity fields and the key.\<close>

definition pitcher_identity :: "int \<Rightarrow> MLBpitcher \<Rightarrow> Draftable \<Rightarrow> Pitcher \<Rightarrow> Pitcher" where
  "pitcher_identity lookup sim s fp =
     (let fp1 = fp\<lparr>Pitcher.Full_name := DisplayName s, Mlb_id := lookup,
                   Pitcher.Team_name := MLBpitcher.Team_name sim\<rparr>;
          fp2 = (if Draftable.RosterSlotId s = 573
                 then fp1\<lparr>Mlb_id := int64_wrap (lookup * 1000)\<rparr> else fp1);
          fp3 = (if Draftable.RosterSlotId s = 574
                 then fp2\<lparr>Mlb_id := int64_wrap (lookup * 10000)\<rparr> else fp2);
          fp4 = fp3\<lparr>Pitcher.Salary := Draftable.Salary s,
                    Pitcher.RosterSlotId := Draftable.RosterSlotId s,
                    Pitcher.Lineup_selected := 0\<rparr>
      in fp4\<lparr>Pitcher.Draftable_uid :=
               sprint_int (PlayerDkId s) @ ''_'' @ sprint_int lookup @ ''_'' @ Position s
                 @ ''_'' @ ''_'' @ sprint_int (Mlb_id fp4) @ ''_''
                 @ sprint_int (Pitcher.Salary fp4)\<rparr>)"

text \<open>The variables that outlive one pass of the loop over the slots:
  \<^verbatim>\<open>FinalPitcher\<close>, \<^verbatim>\<open>FinalPitcherKeys\<close> and \<^verbatim>\<open>FinalPitchers.Data\<close> (lines 495 to 497).\<close>

record pitcher_state =
  FinalPitcher :: Pitcher
  FinalPitcherKeys :: "string list"
  FinalPitchers :: "Pitcher list"

definition init_pitcher_state :: pitcher_state where
  "init_pitcher_state =
     \<lparr>FinalPitcher = zero_Pitcher, FinalPitcherKeys = [], FinalPitchers = []\<rparr>"

text \<open>Lines 1562 to 1567.\<close>

definition pitcher_gate :: "Pitcher \<Rightarrow> pitcher_state \<Rightarrow> pitcher_state" where
  "pitcher_gate fp st =
     (if implContains (FinalPitcherKeys st) (Pitcher.Draftable_uid fp)
      then st\<lparr>FinalPitcher := fp\<rparr>
      else if \<not> ProbablePitcher fp then st\<lparr>FinalPitcher := fp\<rparr>
      else st\<lparr>FinalPitcher := fp,
              FinalPitcherKeys := FinalPitcherKeys st @ [Pitcher.Draftable_uid fp],
              FinalPitchers := FinalPitchers st @ [fp]\<rparr>)"

text \<open>Lines 1314 to 1568, one pass of the loop over the slots.\<close>

definition is_pitcher_slot :: "Draftable \<Rightarrow> bool" where
  "is_pitcher_slot s =
     (strings_Contains (Position s) ''SP'' \<or> strings_Contains (Position s) ''RP'')"

definition pitcher_slot ::
  "(string \<Rightarrow> time option) \<Rightarrow> (rat \<Rightarrow> float64) \<Rightarrow> (string \<rightharpoonup> ServiceKey) \<Rightarrow>
   (string \<rightharpoonup> MLBpitcher) \<Rightarrow> (string \<rightharpoonup> OddsGame list) \<Rightarrow> (string \<rightharpoonup> TeamPoints) \<Rightarrow>
   Draftable \<Rightarrow> pitcher_state \<Rightarrow> fault + pitcher_state" where
  "pitcher_slot parse rnd Keys pitchers oddsDat TeamKeys s st =
     (if is_pitcher_slot s then
        (let lookup = PlayerID (Keys_at Keys (sprint_int (PlayerDkId s)));
             sim = pitchers_at pitchers (sprint_int lookup);
             tmpTeamId = Team_id sim
         in case parse (StartTime s) of
              None \<Rightarrow> Inl ParseError
            | Some t \<Rightarrow>
                (case game_loop parse rnd oddsDat TeamKeys tmpTeamId t (Games sim)
                        (pitcher_reset s (FinalPitcher st)) of
                   Inl e \<Rightarrow> Inl e
                 | Inr fp \<Rightarrow> Inr (pitcher_gate (pitcher_identity lookup sim s fp) st)))
      else Inr st)"

fun pitchers_loop ::
  "(string \<Rightarrow> time option) \<Rightarrow> (rat \<Rightarrow> float64) \<Rightarrow> (string \<rightharpoonup> ServiceKey) \<Rightarrow>
   (string \<rightharpoonup> MLBpitcher) \<Rightarrow> (string \<rightharpoonup> OddsGame list) \<Rightarrow> (string \<rightharpoonup> TeamPoints) \<Rightarrow>
   Draftable list \<Rightarrow> pitcher_state \<Rightarrow> fault + pitcher_state" where
  "pitchers_loop parse rnd Keys pitchers oddsDat TeamKeys [] st = Inr st"
| "pitchers_loop parse rnd Keys pitchers oddsDat TeamKeys (s # ss) st =
     (case pitcher_slot parse rnd Keys pitchers oddsDat TeamKeys s st of
        Inl e \<Rightarrow> Inl e
      | Inr st' \<Rightarrow> pitchers_loop parse rnd Keys pitchers oddsDat TeamKeys ss st')"

text \<open>What the branch hands to \<^verbatim>\<open>c.IndentedJSON\<close> (line 1571), or the panic that kept it
  from getting there.\<close>

definition pitchers_dk ::
  "(string \<Rightarrow> time option) \<Rightarrow> (rat \<Rightarrow> float64) \<Rightarrow> (string \<rightharpoonup> ServiceKey) \<Rightarrow>
   (string \<rightharpoonup> MLBpitcher) \<Rightarrow> (string \<rightharpoonup> OddsGame list) \<Rightarrow> (string \<rightharpoonup> TeamPoints) \<Rightarrow>
   Draftable list \<Rightarrow> fault + Pitcher list" where
  "pitchers_dk parse rnd Keys pitchers oddsDat TeamKeys draftables =
     (case pitchers_loop parse rnd Keys pitchers oddsDat TeamKeys draftables init_pitcher_state of
        Inl e \<Rightarrow> Inl e
      | Inr st \<Rightarrow> Inr (FinalPitchers st))"

subsection \<open>Notions used to state the properties of the pitchers branch\<close>

text \<open>
  The selection rule in the spec's words (section 4.2): an entry qualifies when its game
  timestamp, after adding one hour, is strictly after the reference timestamp; the entry
  selected is the first one that qualifies, \<open>find (qualifies parse t) ledger\<close>. An entry
  whose date does not parse does not qualify. The two tuples collect the fields of the
  record that the game loop assigns when it takes a game, and the three odds fields; the
  histogram field \<open>ProjPointsList\<close> is kept apart because the branch does not reset it.
  \<open>first_entries\<close> cuts every odds list down to its entry at index 0.
\<close>

definition qualifies :: "(string \<Rightarrow> time option) \<Rightarrow> time \<Rightarrow> MLBgame \<Rightarrow> bool" where
  "qualifies parse t g =
     (case parse (GameDate g) of None \<Rightarrow> False | Some parsed \<Rightarrow> t < parsed + time_Hour)"

definition game_context ::
  "Pitcher \<Rightarrow> string \<times> rat \<times> rat \<times> int \<times> int \<times> string \<times> int \<times> int \<times> string \<times> rat \<times> int \<times> int" where
  "game_context fp =
     (Pitcher.Game_gameDate fp, Pitcher.ProjPoints fp, Pitcher.Games_sim_cume_points fp,
      Pitcher.Game_game_Pk fp, Game_game_no fp, Game_opp_prob_phand fp, Game_opp_prob_pitcher fp,
      Pitcher.Game_opponent fp, Pitcher.Game_opponent_name fp, Pitcher.Game_s_deviation fp,
      Game_sim_cume_games fp, Pitcher.Game_venue fp)"

definition odds_fields :: "Pitcher \<Rightarrow> rat \<times> float64 \<times> rat" where
  "odds_fields fp =
     (Pitcher.Game_team_oddspoints fp, Pitcher.Game_player_oddsfactor fp,
      Pitcher.Game_opponent_oddspoints fp)"


text \<open>\<open>slot_sim\<close> is the simulation entry the branch reads for a slot,
  \<^verbatim>\<open>pitchers[fmt.Sprint(lookup)]\<close>; \<open>probable_attr\<close> says that the slot carries a game
  attribute with id 1 and value \<^verbatim>\<open>"true"\<close>.\<close>

definition slot_sim :: "(string \<rightharpoonup> ServiceKey) \<Rightarrow> (string \<rightharpoonup> MLBpitcher) \<Rightarrow> Draftable \<Rightarrow> MLBpitcher" where
  "slot_sim Keys pitchers s =
     pitchers_at pitchers (sprint_int (PlayerID (Keys_at Keys (sprint_int (PlayerDkId s)))))"

definition probable_attr :: "Draftable \<Rightarrow> bool" where
  "probable_attr s =
     (\<exists>a \<in> set (PlayerGameAttributes s). Id_attr a = 1 \<and> Value_attr a = ''true'')"

subsection \<open>The activity loop of the Strava handler\<close>

text \<open>
  \<^verbatim>\<open>src/unnamed/part_000\<close>, lines 237 to 270. The pace fields are \<^verbatim>\<open>float64\<close>
  arithmetic and formatting and are left out; \<^verbatim>\<open>time_temp.Unix()\<close> is the instant in
  whole seconds.
\<close>

record ActivitySummary =
  Distance :: rat
  MovingTime :: int
  StartDate :: string
  StartDateLocal :: string
  TimeZone :: string
  UtcOffset :: int

record FinalActivity =
  Distance :: rat
  MovingTime :: int
  StartDate :: string
  StartDateLocal :: string
  StartDateUnix :: int
  TimeZone :: string
  UtcOffset :: int

fun activities_loop ::
  "(string \<Rightarrow> time option) \<Rightarrow> ActivitySummary list \<Rightarrow> FinalActivity list \<Rightarrow>
   fault + FinalActivity list" where
  "activities_loop parse [] finalActs = Inr finalActs"
| "activities_loop parse (a # as) finalActs =
     (case parse (ActivitySummary.StartDateLocal a) of
        None \<Rightarrow> Inl ParseError
      | Some time_temp \<Rightarrow>
          activities_loop parse as
            (finalActs @
              [\<lparr>FinalActivity.Distance = ActivitySummary.Distance a,
                FinalActivity.MovingTime = ActivitySummary.MovingTime a,
                FinalActivity.StartDate = ActivitySummary.StartDate a,
                FinalActivity.StartDateLocal = ActivitySummary.StartDateLocal a,
                StartDateUnix = time_temp div 1000000000,
                FinalActivity.TimeZone = ActivitySummary.TimeZone a,
                FinalActivity.UtcOffset = ActivitySummary.UtcOffset a\<rparr>]))"

definition getStravaData :: "(string \<Rightarrow> time option) \<Rightarrow> ActivitySummary list \<Rightarrow> fault + FinalActivity list"
  where
  "getStravaData parse athActs = activities_loop parse athActs []"

subsection \<open>Example inputs\<close>

text \<open>A crosswalk with one entry and a slot with the fields that vary between the examples
  as parameters.\<close>

definition ex_keys :: "string \<rightharpoonup> ServiceKey" where
  "ex_keys = [''7'' \<mapsto> \<lparr>PlayerID = 42, Dkid = 7, Fdid = []\<rparr>]"

definition ex_slot :: "int \<Rightarrow> string \<Rightarrow> int \<Rightarrow> PlayerGameAttribute list \<Rightarrow> Draftable" where
  "ex_slot dkid name slot attrs =
     \<lparr>PlayerDkId = dkid, DisplayName = name, Position = ''RB'', Draftable.Status = ''Q'',
      Draftable.Salary = 5500, Draftable.RosterSlotId = slot, PlayerGameAttributes = attrs,
      StartTime = ''2023-09-10T17:00:00Z''\<rparr>"

text \<open>A stand-in for \<^verbatim>\<open>time.Parse\<close> that knows four RFC 3339 instants and rejects every
  other string, a pitcher slot, a game of the ledger, and tables for one athlete (canonical
  id 42, team 121) and one opponent (team 143). The first odds entry of team 121 commences
  at 23:00 on 1 July 2023.\<close>

definition ex_parse :: "string \<Rightarrow> time option" where
  "ex_parse =
     map_of [(''2023-06-30T23:05:00Z'', 1688166300000000000),
             (''2023-07-01T17:00:00Z'', 1688230800000000000),
             (''2023-07-01T23:05:00Z'', 1688252700000000000),
             (''2023-07-02T23:05:00Z'', 1688339100000000000)]"

definition ex_pitcher_slot :: "string \<Rightarrow> string \<Rightarrow> string \<Rightarrow> PlayerGameAttribute list \<Rightarrow> Draftable" where
  "ex_pitcher_slot name pos start attrs =
     \<lparr>PlayerDkId = 7, DisplayName = name, Position = pos, Draftable.Status = ''None'',
      Draftable.Salary = 9000, Draftable.RosterSlotId = 0, PlayerGameAttributes = attrs,
      StartTime = start\<rparr>"

definition ex_game :: "string \<Rightarrow> int \<Rightarrow> MLBgame" where
  "ex_game date opp =
     \<lparr>GameDate = date, Draftkings_proj_points = 31 / 2, Dk_points_list = [-5, 0, 9, 15, 61],
      Draftkings_cume_points = 100, Game_Pk = 717, Game_no = 1, Opp_prob_phand = ''L'',
      Opp_prob_pitcher = 55, Opponent = opp, Opponent_name = ''Opp'', S_deviation = 4,
      Sim_cume_games = 10, Venue = 3\<rparr>"

definition ex_pitchers :: "MLBgame list \<Rightarrow> (string \<rightharpoonup> MLBpitcher)" where
  "ex_pitchers ledger =
     [''42'' \<mapsto> \<lparr>Team_id = ''121'', MLBpitcher.Team_name = ''T'', Games = ledger\<rparr>]"

definition ex_odds :: "string \<rightharpoonup> OddsGame list" where
  "ex_odds =
     [''121'' \<mapsto> [\<lparr>Commence_time = 1688252400, Points = 9 / 2\<rparr>,
                   \<lparr>Commence_time = 1688338800, Points = 4\<rparr>],
      ''143'' \<mapsto> [\<lparr>Commence_time = 1688252400, Points = 7 / 2\<rparr>]]"

definition ex_teams :: "string \<rightharpoonup> TeamPoints" where
  "ex_teams = [''121'' \<mapsto> \<lparr>TeamID = 121, Avg_points = 9 / 4\<rparr>]"

section \<open>Properties\<close>

subsection \<open>The histogram\<close>

lemma sum_tempPointsList_count_value:
  "sum_list (tempPointsList (count_value v c)) = sum_list (tempPointsList c) + 1"
  by (simp add: count_value_def tempPointsList_def)

lemma sum_tempPointsList_count_values:
  "sum_list (tempPointsList (count_values vs c)) = sum_list (tempPointsList c) + int (length vs)"
  by (induction vs arbitrary: c) (simp_all add: sum_tempPointsList_count_value)

lemma length_points_histogram: "length (points_histogram vs) = 8"
  by (simp add: points_histogram_def tempPointsList_def)

text \<open>
  C4. For every score sample, the empty one included, the histogram has eight elements
  and its counts add up to the length of the sample: every value of the sample is
  counted in exactly one bucket.
\<close>

theorem histogram_conservation:
  "length (points_histogram vs) = 8 \<and> sum_list (points_histogram vs) = int (length vs)"
proof
  show "length (points_histogram vs) = 8"
    by (rule length_points_histogram)
  have "sum_list (tempPointsList zero_counters) = 0"
    by (simp add: tempPointsList_def zero_counters_def)
  then show "sum_list (points_histogram vs) = int (length vs)"
    by (simp add: points_histogram_def sum_tempPointsList_count_values)
qed

lemma points_histogram_single:
  "points_histogram [v] = tempPointsList (count_value v zero_counters)"
  by (simp add: points_histogram_def)

lemma bucket_decade:
  assumes "k \<in> {1..5}" "10 * of_nat k \<le> v" "v < 10 * of_nat k + 10"
  shows "points_histogram [v] = (replicate 8 0)[k + 1 := 1]"
proof -
  from assms(1) consider "k = 1" | "k = 2" | "k = 3" | "k = 4" | "k = 5"
    by force
  then show ?thesis
    using assms(2,3)
    by cases
      (simp_all add: points_histogram_single count_value_def tempPointsList_def
         zero_counters_def numeral_eq_Suc)
qed

lemma count_values_snoc: "count_values (vs @ [v]) c = count_value v (count_values vs c)"
  by (induction vs arbitrary: c) simp_all

lemma tempPointsList_count_value:
  "tempPointsList (count_value v c) =
     map2 (+) (tempPointsList c) (tempPointsList (count_value v zero_counters))"
  by (simp add: count_value_def tempPointsList_def zero_counters_def)

text \<open>
  C5. The bucket of a value is fixed by the value alone. A value at most 0 is counted in
  bucket 0 (so is 0 itself), a value strictly between 0 and 10 in bucket 1, a value in
  \<open>[10k, 10k + 10)\<close> for \<open>k\<close> from 1 to 5 in bucket \<open>k + 1\<close>, a value of 60 or more (so 60
  itself) in the last bucket; a value appended to a sample adds its own one-value
  histogram to the histogram of the sample; and the sample \<open>[-5, 0, 9, 15, 61]\<close> gives
  \<open>[2, 1, 1, 0, 0, 0, 0, 1]\<close>.
\<close>

theorem bucket_assignment:
  "(v \<le> 0 \<longrightarrow> points_histogram [v] = [1, 0, 0, 0, 0, 0, 0, 0]) \<and>
   (0 < v \<and> v < 10 \<longrightarrow> points_histogram [v] = [0, 1, 0, 0, 0, 0, 0, 0]) \<and>
   (k \<in> {1..5} \<and> 10 * of_nat k \<le> v \<and> v < 10 * of_nat k + 10 \<longrightarrow>
      points_histogram [v] = (replicate 8 0)[k + 1 := 1]) \<and>
   (60 \<le> v \<longrightarrow> points_histogram [v] = [0, 0, 0, 0, 0, 0, 0, 1]) \<and>
   points_histogram (vs @ [v]) = map2 (+) (points_histogram vs) (points_histogram [v]) \<and>
   points_histogram [0] = [1, 0, 0, 0, 0, 0, 0, 0] \<and>
   points_histogram [60] = [0, 0, 0, 0, 0, 0, 0, 1] \<and>
   points_histogram [-5, 0, 9, 15, 61] = [2, 1, 1, 0, 0, 0, 0, 1]"
proof (intro conjI impI)
  show "points_histogram [v] = (replicate 8 0)[k + 1 := 1]"
    if "k \<in> {1..5} \<and> 10 * of_nat k \<le> v \<and> v < 10 * of_nat k + 10"
    using that bucket_decade by blast
  show "points_histogram (vs @ [v]) = map2 (+) (points_histogram vs) (points_histogram [v])"
    unfolding points_histogram_single
    by (simp only: points_histogram_def count_values_snoc)
       (rule tempPointsList_count_value)
qed (simp_all add: points_histogram_single count_value_def tempPointsList_def
       zero_counters_def points_histogram_def)

theorem bucket_assignment_witness:
  "points_histogram [15] = [0, 0, 1, 0, 0, 0, 0, 0] \<and>
   points_histogram [-3] = [1, 0, 0, 0, 0, 0, 0, 0] \<and>
   points_histogram [9 / 2] = [0, 1, 0, 0, 0, 0, 0, 0] \<and>
   points_histogram [75] = [0, 0, 0, 0, 0, 0, 0, 1]"
  using bucket_assignment [of 15 1] bucket_assignment [of "- 3" 1]
    bucket_assignment [of "9 / 2" 1] bucket_assignment [of 75 1]
  by (simp add: numeral_eq_Suc)

subsection \<open>The gate and the keys\<close>

lemma nfl_classic_loop_gate_records:
  "nfl_classic_loop Keys nfl_players ss out =
     gate_records (map (nfl_classic_player Keys nfl_players) ss) out"
  by (induction ss arbitrary: out) simp_all

lemma nfl_showdown_loop_gate_records:
  "nfl_showdown_loop Keys nfl_players ss out =
     gate_records (map (nfl_showdown_player Keys nfl_players) ss) out"
  by (induction ss arbitrary: out) simp_all

lemma nfl_gate_unfold:
  "nfl_gate p out =
     (if NflPlayer.Draftable_uid p \<notin> set (FinalNFLPlayerKeys out) \<and> Inlineup p
      then out\<lparr>FinalNFLPlayerKeys := FinalNFLPlayerKeys out @ [NflPlayer.Draftable_uid p],
               FinalNFLPlayers := FinalNFLPlayers out @ [p]\<rparr>
      else out)"
  by (simp add: nfl_gate_def implContains_def)

lemma keys_match_gate: "keys_match out \<Longrightarrow> keys_match (nfl_gate p out)"
  by (simp add: keys_match_def nfl_gate_unfold)

lemma keys_match_gate_records: "keys_match out \<Longrightarrow> keys_match (gate_records ps out)"
  by (induction ps arbitrary: out) (simp_all add: keys_match_gate)

lemma distinct_gate:
  "distinct (FinalNFLPlayerKeys out) \<Longrightarrow> distinct (FinalNFLPlayerKeys (nfl_gate p out))"
  by (simp add: nfl_gate_unfold)

lemma distinct_gate_records:
  "distinct (FinalNFLPlayerKeys out) \<Longrightarrow> distinct (FinalNFLPlayerKeys (gate_records ps out))"
  by (induction ps arbitrary: out) (simp_all add: distinct_gate)

lemma keys_match_empty: "keys_match empty_nfl_out"
  by (simp add: keys_match_def empty_nfl_out_def)

lemma filter_uid_gate_records:
  "keys_match out \<Longrightarrow>
   filter (\<lambda>q. NflPlayer.Draftable_uid q = u) (FinalNFLPlayers (gate_records ps out)) =
     filter (\<lambda>q. NflPlayer.Draftable_uid q = u) (FinalNFLPlayers out) @
       (if u \<in> set (FinalNFLPlayerKeys out) then []
        else (case find (\<lambda>p. Inlineup p \<and> NflPlayer.Draftable_uid p = u) ps of
                None \<Rightarrow> [] | Some p \<Rightarrow> [p]))"
proof (induction ps arbitrary: out)
  case Nil
  then show ?case by simp
next
  case (Cons p ps)
  have km: "keys_match (nfl_gate p out)"
    using Cons.prems by (rule keys_match_gate)
  show ?case
    using Cons.prems
    by (simp add: Cons.IH [OF km]) (auto simp: nfl_gate_unfold keys_match_def)
qed

lemma keys_mono_gate:
  "set (FinalNFLPlayerKeys out) \<subseteq> set (FinalNFLPlayerKeys (nfl_gate p out))"
  by (auto simp: nfl_gate_unfold)

lemma keys_mono_gate_records:
  "set (FinalNFLPlayerKeys out) \<subseteq> set (FinalNFLPlayerKeys (gate_records ps out))"
proof (induction ps arbitrary: out)
  case Nil
  then show ?case by simp
next
  case (Cons p ps)
  have "set (FinalNFLPlayerKeys out) \<subseteq> set (FinalNFLPlayerKeys (nfl_gate p out))"
    by (rule keys_mono_gate)
  also have "\<dots> \<subseteq> set (FinalNFLPlayerKeys (gate_records ps (nfl_gate p out)))"
    by (rule Cons.IH)
  finally show ?case by simp
qed

lemma eligible_uid_emitted:
  "p \<in> set ps \<Longrightarrow> Inlineup p \<Longrightarrow>
   NflPlayer.Draftable_uid p \<in> set (FinalNFLPlayerKeys (gate_records ps out))"
proof (induction ps arbitrary: out)
  case Nil
  then show ?case by simp
next
  case (Cons q ps)
  show ?case
  proof (cases "p = q")
    case True
    then have "NflPlayer.Draftable_uid p \<in> set (FinalNFLPlayerKeys (nfl_gate q out))"
      using Cons.prems(2) by (simp add: nfl_gate_unfold)
    then show ?thesis using keys_mono_gate_records by auto
  next
    case False
    then show ?thesis using Cons by simp
  qed
qed

lemma eligible_gate:
  "\<forall>p \<in> set (FinalNFLPlayers out). Inlineup p \<Longrightarrow>
   \<forall>p \<in> set (FinalNFLPlayers (nfl_gate q out)). Inlineup p"
  by (auto simp: nfl_gate_unfold)

lemma emitted_eligible:
  "\<forall>p \<in> set (FinalNFLPlayers out). Inlineup p \<Longrightarrow>
   \<forall>p \<in> set (FinalNFLPlayers (gate_records ps out)). Inlineup p"
proof (induction ps arbitrary: out)
  case Nil
  then show ?case by simp
next
  case (Cons q ps)
  from Cons.prems have "\<forall>p \<in> set (FinalNFLPlayers (nfl_gate q out)). Inlineup p"
    by (rule eligible_gate)
  then show ?case
    using Cons.IH by simp
qed

lemma emitted_from_input:
  "set (FinalNFLPlayers (gate_records ps out)) \<subseteq> set (FinalNFLPlayers out) \<union> set ps"
proof (induction ps arbitrary: out)
  case Nil
  then show ?case by simp
next
  case (Cons p ps)
  have "set (FinalNFLPlayers (nfl_gate p out)) \<subseteq> set (FinalNFLPlayers out) \<union> {p}"
    by (auto simp: nfl_gate_unfold)
  with Cons.IH [of "nfl_gate p out"] show ?case by auto
qed

lemma digit_char_not_underscore: "digit_char d \<noteq> CHR ''_''"
proof -
  have "d mod 10 < length ''0123456789''" by simp
  then have "''0123456789'' ! (d mod 10) \<in> set ''0123456789''"
    by (rule nth_mem)
  then show ?thesis
    unfolding digit_char_def by auto
qed

lemma sprint_nat_no_underscore: "CHR ''_'' \<notin> set (sprint_nat n)"
proof (induction n rule: sprint_nat.induct)
  case (1 n)
  show ?case
  proof (cases "n < 10")
    case True
    then show ?thesis
      using digit_char_not_underscore [of n] by (simp add: sprint_nat.simps [of n])
  next
    case False
    then show ?thesis
      using 1 digit_char_not_underscore [of "n mod 10"] by (simp add: sprint_nat.simps [of n])
  qed
qed

lemma sprint_int_no_underscore: "CHR ''_'' \<notin> set (sprint_int i)"
  by (simp add: sprint_int_def sprint_nat_no_underscore)

lemma slot_tag_differs:
  assumes "CHR ''_'' \<notin> set u" "CHR ''_'' \<notin> set v"
  shows "x @ ''_511_'' @ u \<noteq> y @ ''_512_'' @ v"
proof
  assume eq: "x @ ''_511_'' @ u = y @ ''_512_'' @ v"
  let ?d = "\<lambda>w. dropWhile (\<lambda>c. c \<noteq> CHR ''_'') (rev w)"
  have drop: "dropWhile (\<lambda>c. c \<noteq> CHR ''_'') (rev w @ CHR ''_'' # ws) = CHR ''_'' # ws"
    if "CHR ''_'' \<notin> set w" for w ws
  proof -
    have "dropWhile (\<lambda>c. c \<noteq> CHR ''_'') (rev w @ CHR ''_'' # ws) =
            dropWhile (\<lambda>c. c \<noteq> CHR ''_'') (CHR ''_'' # ws)"
      by (rule dropWhile_append2) (use that in auto)
    then show ?thesis by simp
  qed
  have l: "?d (x @ ''_511_'' @ u) = ''_115_'' @ rev x"
    using drop [OF assms(1)] by simp
  have r: "?d (y @ ''_512_'' @ v) = ''_215_'' @ rev y"
    using drop [OF assms(2)] by simp
  from eq have "?d (x @ ''_511_'' @ u) = ?d (y @ ''_512_'' @ v)"
    by (rule arg_cong)
  then have "''_115_'' @ rev x = ''_215_'' @ rev y"
    by (simp only: l r)
  then show False
    by simp
qed

lemma sprint_int_examples:
  "sprint_int 0 = ''0''" "sprint_int 7 = ''7''" "sprint_int 9 = ''9''"
  "sprint_int 42 = ''42''" "sprint_int 5500 = ''5500''"
  by (simp_all add: sprint_int_def sprint_nat.simps digit_char_def)

lemma nfl_classic_records:
  "nfl_classic Keys nfl_players draftables =
     FinalNFLPlayers (gate_records (map (nfl_classic_player Keys nfl_players) draftables) empty_nfl_out)"
  by (simp add: nfl_classic_def nfl_classic_loop_gate_records)

subsection \<open>The NFL classic branch\<close>

text \<open>
  C3 (as amended). The gate appends a record exactly when its key is not among the keys
  seen and its lineup flag is true, and then adds the key to the keys seen; no two
  records of one pass share a key; and for every key \<open>u\<close> the output holds exactly one
  record with that key, the record of the first slot in input order that is in the lineup
  and has the key \<open>u\<close>, or none when no slot in the lineup has it. So of two slots in the
  lineup sharing a key only the first appears; a slot out of the lineup neither appears
  nor keeps a later slot with its key out.
\<close>

theorem dedup_gate:
  "nfl_gate p out =
     (if NflPlayer.Draftable_uid p \<notin> set (FinalNFLPlayerKeys out) \<and> Inlineup p
      then out\<lparr>FinalNFLPlayerKeys := FinalNFLPlayerKeys out @ [NflPlayer.Draftable_uid p],
               FinalNFLPlayers := FinalNFLPlayers out @ [p]\<rparr>
      else out) \<and>
   distinct (map NflPlayer.Draftable_uid (nfl_classic Keys nfl_players draftables)) \<and>
   filter (\<lambda>q. NflPlayer.Draftable_uid q = u) (nfl_classic Keys nfl_players draftables) =
     (case find (\<lambda>q. Inlineup q \<and> NflPlayer.Draftable_uid q = u)
             (map (nfl_classic_player Keys nfl_players) draftables) of
        None \<Rightarrow> [] | Some q \<Rightarrow> [q])"
proof (intro conjI)
  let ?ps = "map (nfl_classic_player Keys nfl_players) draftables"
  let ?out = "gate_records ?ps empty_nfl_out"
  show "nfl_gate p out =
     (if NflPlayer.Draftable_uid p \<notin> set (FinalNFLPlayerKeys out) \<and> Inlineup p
      then out\<lparr>FinalNFLPlayerKeys := FinalNFLPlayerKeys out @ [NflPlayer.Draftable_uid p],
               FinalNFLPlayers := FinalNFLPlayers out @ [p]\<rparr>
      else out)"
    by (rule nfl_gate_unfold)
  have "keys_match ?out"
    by (rule keys_match_gate_records) (rule keys_match_empty)
  moreover have "distinct (FinalNFLPlayerKeys ?out)"
    by (rule distinct_gate_records) (simp add: empty_nfl_out_def)
  ultimately show "distinct (map NflPlayer.Draftable_uid (nfl_classic Keys nfl_players draftables))"
    by (simp add: nfl_classic_records keys_match_def)
  show "filter (\<lambda>q. NflPlayer.Draftable_uid q = u) (nfl_classic Keys nfl_players draftables) =
     (case find (\<lambda>q. Inlineup q \<and> NflPlayer.Draftable_uid q = u) ?ps of
        None \<Rightarrow> [] | Some q \<Rightarrow> [q])"
    using filter_uid_gate_records [OF keys_match_empty, of u ?ps]
    by (simp add: nfl_classic_records empty_nfl_out_def)
qed

theorem dedup_gate_witness:
  "nfl_classic ex_keys Map.empty [ex_slot 7 ''A'' 70 [], ex_slot 7 ''B'' 70 []] =
     [nfl_classic_player ex_keys Map.empty (ex_slot 7 ''A'' 70 [])]"
proof -
  let ?a = "nfl_classic_player ex_keys Map.empty (ex_slot 7 ''A'' 70 [])"
  let ?b = "nfl_classic_player ex_keys Map.empty (ex_slot 7 ''B'' 70 [])"
  let ?out = "nfl_classic ex_keys Map.empty [ex_slot 7 ''A'' 70 [], ex_slot 7 ''B'' 70 []]"
  have uid: "NflPlayer.Draftable_uid ?b = NflPlayer.Draftable_uid ?a"
    by (simp add: nfl_classic_player_def ex_slot_def Let_def)
  have el: "Inlineup ?a" "Inlineup ?b"
    by (simp_all add: nfl_classic_player_def ex_slot_def Let_def)
  have "filter (\<lambda>q. NflPlayer.Draftable_uid q = NflPlayer.Draftable_uid ?a) ?out = [?a]"
    using dedup_gate [of _ _ ex_keys Map.empty "[ex_slot 7 ''A'' 70 [], ex_slot 7 ''B'' 70 []]"
        "NflPlayer.Draftable_uid ?a"] el
    by simp
  moreover have "filter (\<lambda>q. NflPlayer.Draftable_uid q = NflPlayer.Draftable_uid ?a) ?out = ?out"
    using uid el
    by (simp add: nfl_classic_def nfl_gate_unfold empty_nfl_out_def)
  ultimately show ?thesis by simp
qed

text \<open>
  C3 as stated fails where the first of two slots sharing a key is out of the lineup: the
  second appears in the output and the first does not.
\<close>

theorem dedup_first_ineligible_counterexample:
  "NflPlayer.Draftable_uid (nfl_classic_player ex_keys Map.empty
        (ex_slot 7 ''A'' 70 [\<lparr>Id_attr = 100, Value_attr = ''false''\<rparr>])) =
     NflPlayer.Draftable_uid (nfl_classic_player ex_keys Map.empty (ex_slot 7 ''B'' 70 [])) \<and>
   nfl_classic ex_keys Map.empty
     [ex_slot 7 ''A'' 70 [\<lparr>Id_attr = 100, Value_attr = ''false''\<rparr>], ex_slot 7 ''B'' 70 []] =
     [nfl_classic_player ex_keys Map.empty (ex_slot 7 ''B'' 70 [])] \<and>
   nfl_classic_player ex_keys Map.empty
        (ex_slot 7 ''A'' 70 [\<lparr>Id_attr = 100, Value_attr = ''false''\<rparr>]) \<noteq>
     nfl_classic_player ex_keys Map.empty (ex_slot 7 ''B'' 70 [])"
proof -
  let ?a = "nfl_classic_player ex_keys Map.empty
        (ex_slot 7 ''A'' 70 [\<lparr>Id_attr = 100, Value_attr = ''false''\<rparr>])"
  let ?b = "nfl_classic_player ex_keys Map.empty (ex_slot 7 ''B'' 70 [])"
  have uid: "NflPlayer.Draftable_uid ?a = NflPlayer.Draftable_uid ?b"
    by (simp add: nfl_classic_player_def ex_slot_def Let_def)
  have el: "\<not> Inlineup ?a" "Inlineup ?b"
    by (simp_all add: nfl_classic_player_def ex_slot_def Let_def)
  have out: "nfl_classic ex_keys Map.empty
     [ex_slot 7 ''A'' 70 [\<lparr>Id_attr = 100, Value_attr = ''false''\<rparr>], ex_slot 7 ''B'' 70 []] = [?b]"
    using el by (simp add: nfl_classic_def nfl_gate_unfold empty_nfl_out_def)
  have "?a \<noteq> ?b"
    using el by auto
  with uid out show ?thesis
    by simp
qed


lemma uid_example:
  "NflPlayer.Draftable_uid (nfl_classic_player ex_keys Map.empty (ex_slot 7 ''B'' 70 [])) =
     ''7_42_RB__42_5500''"
  by (simp add: nfl_classic_player_def ex_slot_def Let_def ex_keys_def Keys_at_def
      sprint_int_examples)

lemma nfl_classic_emits_eligible:
  assumes "s \<in> set draftables" "Inlineup (nfl_classic_player Keys nfl_players s)"
  shows "NflPlayer.Draftable_uid (nfl_classic_player Keys nfl_players s) \<in>
           set (map NflPlayer.Draftable_uid (nfl_classic Keys nfl_players draftables))"
proof -
  let ?ps = "map (nfl_classic_player Keys nfl_players) draftables"
  have "keys_match (gate_records ?ps empty_nfl_out)"
    by (rule keys_match_gate_records) (rule keys_match_empty)
  moreover have "NflPlayer.Draftable_uid (nfl_classic_player Keys nfl_players s) \<in>
      set (FinalNFLPlayerKeys (gate_records ?ps empty_nfl_out))"
    by (rule eligible_uid_emitted) (use assms in auto)
  ultimately show ?thesis
    by (simp add: nfl_classic_records keys_match_def)
qed

text \<open>
  C8 (as amended). For a slot whose provider id has no entry in the crosswalk the
  canonical id is 0; when the simulation table has no entry under \<open>"0"\<close> the lookups give
  zero values, and the record assembled has zero team and opponent odds points, opponent
  0, venue 0, empty names, zero projection fields and an all-zero histogram, while its
  odds factor is the constant 1 that the branch assigns to every record, its game number
  is 1 and its game date is the slot's start time. The branch has no operation that can
  panic (its result type has no fault); the loop goes on with the remaining slots, and
  every slot in the lineup, this one and the later ones, has its key in the output.
\<close>

theorem unresolved_id_defaults:
  assumes "Keys (sprint_int (PlayerDkId s)) = None" and "nfl_players ''0'' = None"
  shows
    "(let p = nfl_classic_player Keys nfl_players s in
        Nfl_id p = ''0'' \<and>
        NflPlayer.Team_name p = [] \<and>
        NflPlayer.ProjPoints p = 0 \<and>
        NflPlayer.ProjPointsList p = [0, 0, 0, 0, 0, 0, 0, 0] \<and>
        NflPlayer.Game_opponent p = 0 \<and>
        NflPlayer.Game_opponent_name p = [] \<and>
        NflPlayer.Game_team_oddspoints p = 0 \<and>
        NflPlayer.Game_opponent_oddspoints p = 0 \<and>
        NflPlayer.Game_s_deviation p = 0 \<and>
        NflPlayer.Games_sim_cume_points p = 0 \<and>
        NflPlayer.Game_venue p = 0 \<and>
        NflPlayer.Game_venue_name p = [] \<and>
        NflPlayer.Game_player_oddsfactor p = 1 \<and>
        NflPlayer.Game_game_Pk p = 1 \<and>
        NflPlayer.Game_gameDate p = StartTime s \<and>
        nfl_classic_loop Keys nfl_players (s # rest) out =
          nfl_classic_loop Keys nfl_players rest (nfl_gate p out) \<and>
        (Inlineup p \<longrightarrow>
           NflPlayer.Draftable_uid p \<in>
             set (map NflPlayer.Draftable_uid (nfl_classic Keys nfl_players (pre @ s # rest)))) \<and>
        (\<forall>s' \<in> set rest. Inlineup (nfl_classic_player Keys nfl_players s') \<longrightarrow>
           NflPlayer.Draftable_uid (nfl_classic_player Keys nfl_players s') \<in>
             set (map NflPlayer.Draftable_uid (nfl_classic Keys nfl_players (pre @ s # rest)))))"
proof -
  have lookup: "PlayerID (Keys_at Keys (sprint_int (PlayerDkId s))) = 0"
    using assms(1) by (simp add: Keys_at_def zero_ServiceKey_def)
  have zero: "sprint_int 0 = ''0''"
    by (simp add: sprint_int_def sprint_nat.simps digit_char_def)
  have sim: "nfl_players_at nfl_players ''0'' = zero_NFLplayersim"
    using assms(2) by (simp add: nfl_players_at_def)
  have hist: "points_histogram [] = [0, 0, 0, 0, 0, 0, 0, 0]"
    by (simp add: points_histogram_def tempPointsList_def zero_counters_def)
  have fields: "Nfl_id (nfl_classic_player Keys nfl_players s) = ''0''"
    "NflPlayer.Team_name (nfl_classic_player Keys nfl_players s) = []"
    "NflPlayer.ProjPoints (nfl_classic_player Keys nfl_players s) = 0"
    "NflPlayer.ProjPointsList (nfl_classic_player Keys nfl_players s) = [0, 0, 0, 0, 0, 0, 0, 0]"
    "NflPlayer.Game_opponent (nfl_classic_player Keys nfl_players s) = 0"
    "NflPlayer.Game_opponent_name (nfl_classic_player Keys nfl_players s) = []"
    "NflPlayer.Game_team_oddspoints (nfl_classic_player Keys nfl_players s) = 0"
    "NflPlayer.Game_opponent_oddspoints (nfl_classic_player Keys nfl_players s) = 0"
    "NflPlayer.Game_s_deviation (nfl_classic_player Keys nfl_players s) = 0"
    "NflPlayer.Games_sim_cume_points (nfl_classic_player Keys nfl_players s) = 0"
    "NflPlayer.Game_venue (nfl_classic_player Keys nfl_players s) = 0"
    "NflPlayer.Game_venue_name (nfl_classic_player Keys nfl_players s) = []"
    "NflPlayer.Game_player_oddsfactor (nfl_classic_player Keys nfl_players s) = 1"
    "NflPlayer.Game_game_Pk (nfl_classic_player Keys nfl_players s) = 1"
    "NflPlayer.Game_gameDate (nfl_classic_player Keys nfl_players s) = StartTime s"
    by (simp_all add: nfl_classic_player_def Let_def lookup zero sim hist zero_NFLplayersim_def)
  have emit: "Inlineup (nfl_classic_player Keys nfl_players s') \<Longrightarrow>
      NflPlayer.Draftable_uid (nfl_classic_player Keys nfl_players s') \<in>
        set (map NflPlayer.Draftable_uid (nfl_classic Keys nfl_players (pre @ s # rest)))"
    if "s' \<in> set (s # rest)" for s'
    by (rule nfl_classic_emits_eligible) (use that in auto)
  show ?thesis
    unfolding Let_def
    using fields emit by simp
qed

theorem unresolved_id_defaults_witness:
  "(let p = nfl_classic_player ex_keys Map.empty (ex_slot 9 ''C'' 70 []) in
      Nfl_id p = ''0'' \<and> NflPlayer.Game_team_oddspoints p = 0 \<and>
      NflPlayer.Game_opponent_oddspoints p = 0 \<and> NflPlayer.Game_opponent p = 0 \<and>
      NflPlayer.Game_player_oddsfactor p = 1 \<and>
      nfl_classic ex_keys Map.empty [ex_slot 9 ''C'' 70 [], ex_slot 7 ''B'' 70 []] =
        [p, nfl_classic_player ex_keys Map.empty (ex_slot 7 ''B'' 70 [])])"
proof -
  have k: "ex_keys (sprint_int (PlayerDkId (ex_slot 9 ''C'' 70 []))) = None"
    by (simp add: ex_keys_def ex_slot_def sprint_int_examples)
  have uids: "NflPlayer.Draftable_uid (nfl_classic_player ex_keys Map.empty (ex_slot 9 ''C'' 70 [])) =
        ''9_0_RB__0_5500''"
    "NflPlayer.Draftable_uid (nfl_classic_player ex_keys Map.empty (ex_slot 7 ''B'' 70 [])) =
        ''7_42_RB__42_5500''"
    by (simp_all add: nfl_classic_player_def ex_slot_def Let_def ex_keys_def Keys_at_def
        zero_ServiceKey_def sprint_int_examples)
  have el: "Inlineup (nfl_classic_player ex_keys Map.empty (ex_slot 9 ''C'' 70 []))"
    "Inlineup (nfl_classic_player ex_keys Map.empty (ex_slot 7 ''B'' 70 []))"
    by (simp_all add: nfl_classic_player_def ex_slot_def Let_def)
  have out: "nfl_classic ex_keys Map.empty [ex_slot 9 ''C'' 70 [], ex_slot 7 ''B'' 70 []] =
      [nfl_classic_player ex_keys Map.empty (ex_slot 9 ''C'' 70 []),
       nfl_classic_player ex_keys Map.empty (ex_slot 7 ''B'' 70 [])]"
    using el uids by (simp add: nfl_classic_def nfl_gate_unfold empty_nfl_out_def)
  show ?thesis
    using unresolved_id_defaults [where Keys = ex_keys and s = "ex_slot 9 ''C'' 70 []"
        and nfl_players = Map.empty and rest = "[]" and pre = "[]" and out = empty_nfl_out] k out
    by (simp add: Let_def)
qed

text \<open>
  C8 as stated fails on the odds factor: the record of a slot with an unmapped id has the
  odds factor 1, not 0.
\<close>

theorem unresolved_id_factor_counterexample:
  "ex_keys (sprint_int (PlayerDkId (ex_slot 9 ''C'' 70 []))) = None \<and>
   NflPlayer.Game_player_oddsfactor
     (nfl_classic_player ex_keys Map.empty (ex_slot 9 ''C'' 70 [])) = 1 \<and>
   NflPlayer.Game_player_oddsfactor
     (nfl_classic_player ex_keys Map.empty (ex_slot 9 ''C'' 70 [])) \<noteq> 0"
  by (simp add: ex_keys_def ex_slot_def sprint_int_examples nfl_classic_player_def Let_def)


subsection \<open>The NFL showdown branch\<close>

lemma nfl_showdown_records:
  "nfl_showdown Keys nfl_players draftables =
     FinalNFLPlayers (gate_records (map (nfl_showdown_player Keys nfl_players) draftables) empty_nfl_out)"
  by (simp add: nfl_showdown_def nfl_showdown_loop_gate_records)

lemma nfl_showdown_emits_eligible:
  assumes "s \<in> set draftables" "Inlineup (nfl_showdown_player Keys nfl_players s)"
  shows "NflPlayer.Draftable_uid (nfl_showdown_player Keys nfl_players s) \<in>
           set (map NflPlayer.Draftable_uid (nfl_showdown Keys nfl_players draftables))"
proof -
  let ?ps = "map (nfl_showdown_player Keys nfl_players) draftables"
  have "keys_match (gate_records ?ps empty_nfl_out)"
    by (rule keys_match_gate_records) (rule keys_match_empty)
  moreover have "NflPlayer.Draftable_uid (nfl_showdown_player Keys nfl_players s) \<in>
      set (FinalNFLPlayerKeys (gate_records ?ps empty_nfl_out))"
    by (rule eligible_uid_emitted) (use assms in auto)
  ultimately show ?thesis
    by (simp add: nfl_showdown_records keys_match_def)
qed

lemma showdown_uid_511:
  assumes "Draftable.RosterSlotId a = 511"
  shows "NflPlayer.Draftable_uid (nfl_showdown_player Keys nfl_players a) =
     (sprint_int (PlayerDkId a) @ ''_'' @
        sprint_int (PlayerID (Keys_at Keys (sprint_int (PlayerDkId a)))) @ ''_'' @ Position a @
        ''__'' @ sprint_int (PlayerID (Keys_at Keys (sprint_int (PlayerDkId a)))))
       @ ''_511_'' @ sprint_int (Draftable.Salary a)"
  using assms by (simp add: nfl_showdown_player_def Let_def)

lemma showdown_uid_512:
  assumes "Draftable.RosterSlotId b = 512"
  shows "NflPlayer.Draftable_uid (nfl_showdown_player Keys nfl_players b) =
     (sprint_int (PlayerDkId b) @ ''_'' @
        sprint_int (PlayerID (Keys_at Keys (sprint_int (PlayerDkId b)))) @ ''_'' @ Position b @
        ''__'' @ sprint_int (PlayerID (Keys_at Keys (sprint_int (PlayerDkId b)))))
       @ ''_512_'' @ sprint_int (Draftable.Salary b)"
  using assms by (simp add: nfl_showdown_player_def Let_def)

lemma showdown_uids_differ:
  assumes "Draftable.RosterSlotId a = 511" "Draftable.RosterSlotId b = 512"
  shows "NflPlayer.Draftable_uid (nfl_showdown_player Keys nfl_players a) \<noteq>
         NflPlayer.Draftable_uid (nfl_showdown_player Keys nfl_players b)"
  unfolding showdown_uid_511 [OF assms(1)] showdown_uid_512 [OF assms(2)]
  by (rule slot_tag_differs) (rule sprint_int_no_underscore)+

text \<open>
  C6. A slot with roster slot id 511 (captain) and a slot with roster slot id 512 (flex)
  have the slot id suffixed onto the athlete id of the record, their keys differ (whatever
  their provider ids, positions and salaries, so in particular for the same athlete), a
  listing of the two gives both records when both are in the lineup, and in any listing
  that holds both, both keys are in the output.
\<close>

theorem showdown_captain_flex:
  assumes "Draftable.RosterSlotId a = 511" and "Draftable.RosterSlotId b = 512"
  shows
    "(let pa = nfl_showdown_player Keys nfl_players a;
          pb = nfl_showdown_player Keys nfl_players b in
        Nfl_id pa = sprint_int (PlayerID (Keys_at Keys (sprint_int (PlayerDkId a)))) @ ''_511'' \<and>
        Nfl_id pb = sprint_int (PlayerID (Keys_at Keys (sprint_int (PlayerDkId b)))) @ ''_512'' \<and>
        NflPlayer.Draftable_uid pa \<noteq> NflPlayer.Draftable_uid pb \<and>
        (Inlineup pa \<and> Inlineup pb \<longrightarrow>
           nfl_showdown Keys nfl_players [a, b] = [pa, pb] \<and>
           nfl_showdown Keys nfl_players [b, a] = [pb, pa]) \<and>
        (a \<in> set draftables \<and> b \<in> set draftables \<and> Inlineup pa \<and> Inlineup pb \<longrightarrow>
           NflPlayer.Draftable_uid pa \<in>
             set (map NflPlayer.Draftable_uid (nfl_showdown Keys nfl_players draftables)) \<and>
           NflPlayer.Draftable_uid pb \<in>
             set (map NflPlayer.Draftable_uid (nfl_showdown Keys nfl_players draftables))))"
proof -
  let ?pa = "nfl_showdown_player Keys nfl_players a"
  let ?pb = "nfl_showdown_player Keys nfl_players b"
  have ids: "Nfl_id ?pa = sprint_int (PlayerID (Keys_at Keys (sprint_int (PlayerDkId a)))) @ ''_511''"
    "Nfl_id ?pb = sprint_int (PlayerID (Keys_at Keys (sprint_int (PlayerDkId b)))) @ ''_512''"
    using assms by (simp_all add: nfl_showdown_player_def Let_def)
  have ne: "NflPlayer.Draftable_uid ?pa \<noteq> NflPlayer.Draftable_uid ?pb"
    using assms by (rule showdown_uids_differ)
  have two: "nfl_showdown Keys nfl_players [a, b] = [?pa, ?pb] \<and>
             nfl_showdown Keys nfl_players [b, a] = [?pb, ?pa]"
    if "Inlineup ?pa" "Inlineup ?pb"
    using that ne by (simp add: nfl_showdown_def nfl_gate_unfold empty_nfl_out_def) 
  have many: "NflPlayer.Draftable_uid ?pa \<in>
             set (map NflPlayer.Draftable_uid (nfl_showdown Keys nfl_players draftables)) \<and>
           NflPlayer.Draftable_uid ?pb \<in>
             set (map NflPlayer.Draftable_uid (nfl_showdown Keys nfl_players draftables))"
    if "a \<in> set draftables" "b \<in> set draftables" "Inlineup ?pa" "Inlineup ?pb"
    using that nfl_showdown_emits_eligible by blast
  show ?thesis
    unfolding Let_def
    using ids ne two many by blast
qed

theorem showdown_captain_flex_witness:
  "NflPlayer.Draftable_uid (nfl_showdown_player ex_keys Map.empty (ex_slot 7 ''A'' 511 [])) =
     ''7_42_RB__42_511_5500'' \<and>
   NflPlayer.Draftable_uid (nfl_showdown_player ex_keys Map.empty (ex_slot 7 ''A'' 512 [])) =
     ''7_42_RB__42_512_5500'' \<and>
   nfl_showdown ex_keys Map.empty [ex_slot 7 ''A'' 511 [], ex_slot 7 ''A'' 512 []] =
     [nfl_showdown_player ex_keys Map.empty (ex_slot 7 ''A'' 511 []),
      nfl_showdown_player ex_keys Map.empty (ex_slot 7 ''A'' 512 [])]"
proof -
  have slots: "Draftable.RosterSlotId (ex_slot 7 ''A'' 511 []) = 511"
    "Draftable.RosterSlotId (ex_slot 7 ''A'' 512 []) = 512"
    by (simp_all add: ex_slot_def)
  have el: "Inlineup (nfl_showdown_player ex_keys Map.empty (ex_slot 7 ''A'' 511 []))"
    "Inlineup (nfl_showdown_player ex_keys Map.empty (ex_slot 7 ''A'' 512 []))"
    by (simp_all add: nfl_showdown_player_def ex_slot_def Let_def)
  have uids: "NflPlayer.Draftable_uid (nfl_showdown_player ex_keys Map.empty (ex_slot 7 ''A'' 511 [])) =
     ''7_42_RB__42_511_5500''"
    "NflPlayer.Draftable_uid (nfl_showdown_player ex_keys Map.empty (ex_slot 7 ''A'' 512 [])) =
     ''7_42_RB__42_512_5500''"
    by (simp_all add: nfl_showdown_player_def ex_slot_def Let_def ex_keys_def Keys_at_def
        sprint_int_examples)
  show ?thesis
    using showdown_captain_flex [OF slots, of ex_keys Map.empty "[]"] el uids
    by (simp add: Let_def)
qed

subsection \<open>The game loop of the pitchers branch\<close>

lemma qualifies_Some:
  "parse (GameDate g) = Some parsed \<Longrightarrow> qualifies parse t g = (t < parsed + time_Hour)"
  by (simp add: qualifies_def)


lemma odds_scan_Inr:
  assumes "odds_scan rnd oddsDat TeamKeys tmpTeamId g gameTime fp = Inr fp'"
  shows "game_context fp' = game_context fp \<and>
         Pitcher.ProjPointsList fp' = Pitcher.ProjPointsList fp \<and>
         ProbablePitcher fp' = ProbablePitcher fp"
  using assms
  by (auto simp: odds_scan_def game_context_def split: list.splits if_splits)



lemma select_game_fields:
  "odds_fields (select_game g fp) = odds_fields fp"
  "ProbablePitcher (select_game g fp) = ProbablePitcher fp"
  "game_context (select_game g fp) =
     (GameDate g, Draftkings_proj_points g, Draftkings_cume_points g, Game_Pk g, Game_no g,
      Opp_prob_phand g, Opp_prob_pitcher g, Opponent g, Opponent_name g, S_deviation g,
      Sim_cume_games g, Venue g)"
  "Pitcher.ProjPointsList (select_game g fp) = points_histogram (Dk_points_list g)"
  by (simp_all add: select_game_def odds_fields_def game_context_def)



lemma game_loop_ProbablePitcher:
  assumes "game_loop parse rnd oddsDat TeamKeys tmpTeamId t ledger fp = Inr fp'"
  shows "ProbablePitcher fp' = ProbablePitcher fp"
  using assms
proof (induction ledger arbitrary: fp)
  case Nil
  then show ?case by simp
next
  case (Cons g' gs)
  from Cons.prems(1) obtain parsed where p: "parse (GameDate g') = Some parsed"
    by (cases "parse (GameDate g')") simp_all
  from Cons.prems(1) p obtain fp1 where
    s: "odds_scan rnd oddsDat TeamKeys tmpTeamId g' (parsed + time_Hour) fp = Inr fp1"
    by (cases "odds_scan rnd oddsDat TeamKeys tmpTeamId g' (parsed + time_Hour) fp") simp_all
  show ?case
  proof (cases "t < parsed + time_Hour")
    case True
    then have "fp' = select_game g' fp1"
      using Cons.prems(1) p s by (simp add: After_def)
    then show ?thesis using odds_scan_Inr [OF s] by (simp add: select_game_fields)
  next
    case False
    then have "game_loop parse rnd oddsDat TeamKeys tmpTeamId t gs fp1 = Inr fp'"
      using Cons.prems(1) p s by (simp add: After_def)
    from Cons.IH [OF this] odds_scan_Inr [OF s] show ?thesis by simp
  qed
qed









subsection \<open>The slots of the pitchers branch\<close>

lemma pitcher_attrs_ProbablePitcher:
  "ProbablePitcher (pitcher_attrs as fp) =
     (ProbablePitcher fp \<or> (\<exists>a \<in> set as. Id_attr a = 1 \<and> Value_attr a = ''true''))"
  by (induction as arbitrary: fp) auto

lemma pitcher_attrs_ignores_100:
  "pitcher_attrs (filter (\<lambda>a. Id_attr a \<noteq> 100) as) fp = pitcher_attrs as fp"
  by (induction as arbitrary: fp) auto

lemma pitcher_reset_ProbablePitcher:
  "ProbablePitcher (pitcher_reset s fp) = probable_attr s"
  by (simp add: pitcher_reset_def pitcher_attrs_ProbablePitcher probable_attr_def)

lemma pitcher_identity_fields:
  "ProbablePitcher (pitcher_identity lookup sim s fp) = ProbablePitcher fp"
  "odds_fields (pitcher_identity lookup sim s fp) = odds_fields fp"
  "game_context (pitcher_identity lookup sim s fp) = game_context fp"
  "Pitcher.ProjPointsList (pitcher_identity lookup sim s fp) = Pitcher.ProjPointsList fp"
  by (simp_all add: pitcher_identity_def Let_def odds_fields_def game_context_def)

lemma pitcher_gate_cases:
  "pitcher_gate fp st =
     (if Pitcher.Draftable_uid fp \<notin> set (FinalPitcherKeys st) \<and> ProbablePitcher fp
      then st\<lparr>FinalPitcher := fp,
              FinalPitcherKeys := FinalPitcherKeys st @ [Pitcher.Draftable_uid fp],
              FinalPitchers := FinalPitchers st @ [fp]\<rparr>
      else st\<lparr>FinalPitcher := fp\<rparr>)"
  by (simp add: pitcher_gate_def implContains_def)

lemma pitcher_gate_probable:
  assumes "\<forall>p \<in> set (FinalPitchers st). ProbablePitcher p"
  shows "\<forall>p \<in> set (FinalPitchers (pitcher_gate fp st)). ProbablePitcher p"
proof (cases "Pitcher.Draftable_uid fp \<notin> set (FinalPitcherKeys st) \<and> ProbablePitcher fp")
  case True
  then show ?thesis using assms by (simp add: pitcher_gate_cases)
next
  case False
  then show ?thesis using assms by (simp add: pitcher_gate_cases)
qed

lemma pitcher_slot_skipped:
  "\<not> is_pitcher_slot s \<Longrightarrow> pitcher_slot parse rnd Keys pitchers oddsDat TeamKeys s st = Inr st"
  by (simp add: pitcher_slot_def)

lemma pitcher_slot_Inr:
  assumes "pitcher_slot parse rnd Keys pitchers oddsDat TeamKeys s st = Inr st'"
    and "is_pitcher_slot s"
  shows "\<exists>t fp. parse (StartTime s) = Some t \<and>
           game_loop parse rnd oddsDat TeamKeys (Team_id (slot_sim Keys pitchers s)) t
             (Games (slot_sim Keys pitchers s)) (pitcher_reset s (FinalPitcher st)) = Inr fp \<and>
           st' = pitcher_gate
                   (pitcher_identity (PlayerID (Keys_at Keys (sprint_int (PlayerDkId s))))
                      (slot_sim Keys pitchers s) s fp) st"
  using assms
  by (auto simp: pitcher_slot_def slot_sim_def Let_def split: option.splits sum.splits)

lemma pitcher_slot_emits_probable:
  assumes "pitcher_slot parse rnd Keys pitchers oddsDat TeamKeys s st = Inr st'"
  shows "(\<forall>p \<in> set (FinalPitchers st). ProbablePitcher p) \<longrightarrow>
           (\<forall>p \<in> set (FinalPitchers st'). ProbablePitcher p)"
    and "\<not> (is_pitcher_slot s \<and> probable_attr s) \<longrightarrow>
           FinalPitchers st' = FinalPitchers st \<and> FinalPitcherKeys st' = FinalPitcherKeys st"
proof -
  show "(\<forall>p \<in> set (FinalPitchers st). ProbablePitcher p) \<longrightarrow>
           (\<forall>p \<in> set (FinalPitchers st'). ProbablePitcher p)"
  proof (cases "is_pitcher_slot s")
    case True
    from pitcher_slot_Inr [OF assms True] show ?thesis
      using pitcher_gate_probable by blast
  next
    case False
    then show ?thesis using assms by (simp add: pitcher_slot_skipped)
  qed
  show "\<not> (is_pitcher_slot s \<and> probable_attr s) \<longrightarrow>
           FinalPitchers st' = FinalPitchers st \<and> FinalPitcherKeys st' = FinalPitcherKeys st"
  proof (cases "is_pitcher_slot s")
    case True
    from pitcher_slot_Inr [OF assms True] obtain t fp where
      l: "game_loop parse rnd oddsDat TeamKeys (Team_id (slot_sim Keys pitchers s)) t
             (Games (slot_sim Keys pitchers s)) (pitcher_reset s (FinalPitcher st)) = Inr fp"
      and st': "st' = pitcher_gate
                   (pitcher_identity (PlayerID (Keys_at Keys (sprint_int (PlayerDkId s))))
                      (slot_sim Keys pitchers s) s fp) st"
      by blast
    have "ProbablePitcher fp = probable_attr s"
      using game_loop_ProbablePitcher [OF l] by (simp add: pitcher_reset_ProbablePitcher)
    then show ?thesis
      using True st' by (simp add: pitcher_gate_cases pitcher_identity_fields)
  next
    case False
    then show ?thesis using assms by (simp add: pitcher_slot_skipped)
  qed
qed

lemma pitchers_loop_emits_probable:
  assumes "pitchers_loop parse rnd Keys pitchers oddsDat TeamKeys draftables st = Inr st'"
    and "\<forall>p \<in> set (FinalPitchers st). ProbablePitcher p"
  shows "\<forall>p \<in> set (FinalPitchers st'). ProbablePitcher p"
  using assms
proof (induction draftables arbitrary: st)
  case Nil
  then show ?case by simp
next
  case (Cons s ss)
  from Cons.prems(1) obtain st1 where
    s1: "pitcher_slot parse rnd Keys pitchers oddsDat TeamKeys s st = Inr st1"
    and l: "pitchers_loop parse rnd Keys pitchers oddsDat TeamKeys ss st1 = Inr st'"
    by (auto split: sum.splits)
  from pitcher_slot_emits_probable(1) [OF s1] Cons.prems(2)
  have "\<forall>p \<in> set (FinalPitchers st1). ProbablePitcher p" by blast
  with l show ?case by (rule Cons.IH)
qed

lemma sprint_int_examples2:
  "sprint_int 121 = ''121''" "sprint_int 143 = ''143''" "sprint_int 9000 = ''9000''"
  by (simp_all add: sprint_int_def sprint_nat.simps digit_char_def)

lemmas ex_simps =
  pitchers_dk_def pitcher_slot_def is_pitcher_slot_def init_pitcher_state_def
  pitcher_reset_def pitcher_identity_def pitcher_gate_def implContains_def zero_Pitcher_def
  ex_parse_def ex_pitcher_slot_def ex_game_def ex_pitchers_def ex_odds_def ex_teams_def
  ex_keys_def Keys_at_def pitchers_at_def odds_Games_def TeamKeys_at_def odds_scan_def
  select_game_def float64_div_def After_def time_Hour_def time_Unix_def Let_def
  sprint_int_examples sprint_int_examples2 zero_ServiceKey_def

subsection \<open>The pitchers branch: gate, faults, selection and odds\<close>

text \<open>
  C10. In the pitchers branch the gate tests the probable-pitcher flag: every record of
  the output has \<open>ProbablePitcher\<close> true; a slot without a game attribute with id 1 and
  value \<^verbatim>\<open>"true"\<close> adds no record; the flag of the record assembled for a slot is exactly
  the presence of that attribute; and the attribute with id 100, the lineup status, is not
  read at all (removing it changes nothing).
\<close>

theorem probable_pitcher_gate:
  "(pitchers_dk parse rnd Keys pitchers oddsDat TeamKeys draftables = Inr out \<longrightarrow>
      (\<forall>p \<in> set out. ProbablePitcher p)) \<and>
   (pitcher_slot parse rnd Keys pitchers oddsDat TeamKeys s st = Inr st' \<and> \<not> probable_attr s \<longrightarrow>
      FinalPitchers st' = FinalPitchers st) \<and>
   (pitcher_slot parse rnd Keys pitchers oddsDat TeamKeys s st = Inr st' \<and> is_pitcher_slot s \<longrightarrow>
      ProbablePitcher (FinalPitcher st') = probable_attr s) \<and>
   pitcher_attrs (filter (\<lambda>a. Id_attr a \<noteq> 100) as) fp = pitcher_attrs as fp"
proof (intro conjI impI)
  show "\<forall>p \<in> set out. ProbablePitcher p"
    if "pitchers_dk parse rnd Keys pitchers oddsDat TeamKeys draftables = Inr out"
  proof -
    from that obtain st where
      l: "pitchers_loop parse rnd Keys pitchers oddsDat TeamKeys draftables init_pitcher_state = Inr st"
      and out: "out = FinalPitchers st"
      by (auto simp: pitchers_dk_def split: sum.splits)
    have "\<forall>p \<in> set (FinalPitchers init_pitcher_state). ProbablePitcher p"
      by (simp add: init_pitcher_state_def)
    with l have "\<forall>p \<in> set (FinalPitchers st). ProbablePitcher p"
      by (rule pitchers_loop_emits_probable)
    with out show ?thesis by simp
  qed
  show "FinalPitchers st' = FinalPitchers st"
    if "pitcher_slot parse rnd Keys pitchers oddsDat TeamKeys s st = Inr st' \<and> \<not> probable_attr s"
    using that pitcher_slot_emits_probable(2) by blast
  show "ProbablePitcher (FinalPitcher st') = probable_attr s"
    if h: "pitcher_slot parse rnd Keys pitchers oddsDat TeamKeys s st = Inr st' \<and> is_pitcher_slot s"
  proof -
    from h pitcher_slot_Inr obtain t fp' where
      l: "game_loop parse rnd oddsDat TeamKeys (Team_id (slot_sim Keys pitchers s)) t
             (Games (slot_sim Keys pitchers s)) (pitcher_reset s (FinalPitcher st)) = Inr fp'"
      and st': "st' = pitcher_gate
                   (pitcher_identity (PlayerID (Keys_at Keys (sprint_int (PlayerDkId s))))
                      (slot_sim Keys pitchers s) s fp') st"
      by blast
    have "ProbablePitcher fp' = probable_attr s"
      using game_loop_ProbablePitcher [OF l] by (simp add: pitcher_reset_ProbablePitcher)
    then show ?thesis
      using st' by (simp add: pitcher_gate_cases pitcher_identity_fields)
  qed
  show "pitcher_attrs (filter (\<lambda>a. Id_attr a \<noteq> 100) as) fp = pitcher_attrs as fp"
    by (rule pitcher_attrs_ignores_100)
qed

lemma ex_run_probable:
  "map_sum id (map (\<lambda>p. (Pitcher.Full_name p, ProbablePitcher p)))
     (pitchers_dk ex_parse Finite ex_keys (ex_pitchers []) ex_odds ex_teams
        [ex_pitcher_slot ''A'' ''SP'' ''2023-07-01T17:00:00Z''
           [\<lparr>Id_attr = 1, Value_attr = ''true''\<rparr>, \<lparr>Id_attr = 100, Value_attr = ''false''\<rparr>],
         ex_pitcher_slot ''B'' ''RP'' ''2023-07-01T17:00:00Z''
           [\<lparr>Id_attr = 100, Value_attr = ''true''\<rparr>]]) =
   Inr [(''A'', True)]"
  by (simp add: ex_simps)

theorem probable_pitcher_gate_witness:
  "(case pitchers_dk ex_parse Finite ex_keys (ex_pitchers []) ex_odds ex_teams
        [ex_pitcher_slot ''A'' ''SP'' ''2023-07-01T17:00:00Z''
           [\<lparr>Id_attr = 1, Value_attr = ''true''\<rparr>, \<lparr>Id_attr = 100, Value_attr = ''false''\<rparr>],
         ex_pitcher_slot ''B'' ''RP'' ''2023-07-01T17:00:00Z''
           [\<lparr>Id_attr = 100, Value_attr = ''true''\<rparr>]] of
      Inl e \<Rightarrow> False
    | Inr out \<Rightarrow> map Pitcher.Full_name out = [''A''] \<and> list_all ProbablePitcher out) \<and>
   (case pitcher_slot ex_parse Finite ex_keys (ex_pitchers []) ex_odds ex_teams
        (ex_pitcher_slot ''B'' ''RP'' ''2023-07-01T17:00:00Z''
           [\<lparr>Id_attr = 100, Value_attr = ''true''\<rparr>]) init_pitcher_state of
      Inl e \<Rightarrow> False
    | Inr st \<Rightarrow> FinalPitchers st = [] \<and> \<not> ProbablePitcher (FinalPitcher st))"
proof -
  let ?B = "ex_pitcher_slot ''B'' ''RP'' ''2023-07-01T17:00:00Z'' [\<lparr>Id_attr = 100, Value_attr = ''true''\<rparr>]"
  let ?run = "pitchers_dk ex_parse Finite ex_keys (ex_pitchers []) ex_odds ex_teams
        [ex_pitcher_slot ''A'' ''SP'' ''2023-07-01T17:00:00Z''
           [\<lparr>Id_attr = 1, Value_attr = ''true''\<rparr>, \<lparr>Id_attr = 100, Value_attr = ''false''\<rparr>], ?B]"
  let ?slot = "pitcher_slot ex_parse Finite ex_keys (ex_pitchers []) ex_odds ex_teams ?B
                 init_pitcher_state"
  from ex_run_probable obtain out where
    run: "?run = Inr out" and names: "map Pitcher.Full_name out = [''A'']"
    by (cases ?run) (auto simp: comp_def)
  from probable_pitcher_gate [THEN conjunct1] run
  have "\<forall>p \<in> set out. ProbablePitcher p"
    by blast
  then have all: "list_all ProbablePitcher out"
    by (simp add: list_all_iff)
  have "\<exists>st. ?slot = Inr st"
    by (simp add: ex_simps)
  then obtain st where slot: "?slot = Inr st" ..
  have np: "\<not> probable_attr ?B" and ip: "is_pitcher_slot ?B"
    by (simp_all add: probable_attr_def ex_pitcher_slot_def is_pitcher_slot_def)
  have "FinalPitchers st = FinalPitchers init_pitcher_state"
    by (rule probable_pitcher_gate [THEN conjunct2, THEN conjunct1, rule_format])
       (use slot np in blast)
  moreover have "ProbablePitcher (FinalPitcher st) = probable_attr ?B"
    by (rule probable_pitcher_gate [THEN conjunct2, THEN conjunct2, THEN conjunct1, rule_format])
       (use slot ip in blast)
  ultimately show ?thesis
    unfolding run slot using names all np by (simp add: init_pitcher_state_def)
qed

lemma pitcher_slot_start_fails:
  "is_pitcher_slot s \<Longrightarrow> parse (StartTime s) = None \<Longrightarrow>
   pitcher_slot parse rnd Keys pitchers oddsDat TeamKeys s st = Inl ParseError"
  by (simp add: pitcher_slot_def Let_def)

lemma game_loop_date_fails:
  assumes "parse (GameDate g) = None" and "\<forall>g' \<in> set pre. \<not> qualifies parse t g'"
  shows "\<exists>e. game_loop parse rnd oddsDat TeamKeys tmpTeamId t (pre @ g # post) fp = Inl e"
  using assms(2)
proof (induction pre arbitrary: fp)
  case Nil
  then show ?case using assms(1) by simp
next
  case (Cons g' pre)
  show ?case
  proof (cases "parse (GameDate g')")
    case None
    then show ?thesis by simp
  next
    case (Some parsed)
    with Cons.prems have nq: "\<not> After (parsed + time_Hour) t"
      by (simp add: qualifies_Some After_def)
    show ?thesis
    proof (cases "odds_scan rnd oddsDat TeamKeys tmpTeamId g' (parsed + time_Hour) fp")
      case (Inl e)
      then show ?thesis using Some by simp
    next
      case (Inr fp1)
      from Cons.IH [of fp1] Cons.prems obtain e where
        "game_loop parse rnd oddsDat TeamKeys tmpTeamId t (pre @ g # post) fp1 = Inl e"
        by auto
      then show ?thesis using Some Inr nq by simp
    qed
  qed
qed

lemma pitcher_slot_date_fails:
  assumes "is_pitcher_slot s" and "parse (StartTime s) = Some t"
    and "Games (slot_sim Keys pitchers s) = pre @ g # post"
    and "parse (GameDate g) = None" and "\<forall>g' \<in> set pre. \<not> qualifies parse t g'"
  shows "\<exists>e. pitcher_slot parse rnd Keys pitchers oddsDat TeamKeys s st = Inl e"
proof -
  from game_loop_date_fails [OF assms(4,5)] obtain e where
    "game_loop parse rnd oddsDat TeamKeys (Team_id (slot_sim Keys pitchers s)) t
       (pre @ g # post) (pitcher_reset s (FinalPitcher st)) = Inl e"
    by blast
  then show ?thesis
    using assms(1,2,3) by (simp add: pitcher_slot_def slot_sim_def Let_def)
qed

lemma pitchers_loop_aborts:
  assumes "s \<in> set draftables"
    and "\<And>st. \<exists>e. pitcher_slot parse rnd Keys pitchers oddsDat TeamKeys s st = Inl e"
  shows "\<exists>e. pitchers_loop parse rnd Keys pitchers oddsDat TeamKeys draftables st = Inl e"
  using assms(1)
proof (induction draftables arbitrary: st)
  case Nil
  then show ?case by simp
next
  case (Cons s' ss)
  show ?case
  proof (cases "pitcher_slot parse rnd Keys pitchers oddsDat TeamKeys s' st")
    case (Inl e)
    then show ?thesis by simp
  next
    case (Inr st1)
    with assms(2) [of st] have "s \<noteq> s'" by auto
    with Cons.prems have "s \<in> set ss" by simp
    from Cons.IH [OF this, of st1] show ?thesis using Inr by simp
  qed
qed

lemma pitchers_dk_aborts:
  assumes "s \<in> set draftables"
    and "\<And>st. \<exists>e. pitcher_slot parse rnd Keys pitchers oddsDat TeamKeys s st = Inl e"
  shows "\<exists>e. pitchers_dk parse rnd Keys pitchers oddsDat TeamKeys draftables = Inl e"
proof -
  from pitchers_loop_aborts [OF assms, of init_pitcher_state] obtain e where
    "pitchers_loop parse rnd Keys pitchers oddsDat TeamKeys draftables init_pitcher_state = Inl e"
    by blast
  then show ?thesis by (simp add: pitchers_dk_def)
qed

lemma activities_loop_aborts:
  "a \<in> set athActs \<Longrightarrow> parse (ActivitySummary.StartDateLocal a) = None \<Longrightarrow>
   activities_loop parse athActs finalActs = Inl ParseError"
proof (induction athActs arbitrary: finalActs)
  case Nil
  then show ?case by simp
next
  case (Cons b bs)
  then show ?case
    by (cases "parse (ActivitySummary.StartDateLocal b)") auto
qed

text \<open>
  C9 (as amended). The request aborts with no output when the start time of a slot that
  passes the position filter does not parse, or when the game date of a ledger entry that
  the scan reaches does not parse (every entry before it fails to qualify), whatever the
  other slots are; and the Strava handler aborts when the start date of any activity does
  not parse.
\<close>

theorem parse_failure_aborts:
  "(s \<in> set draftables \<and> is_pitcher_slot s \<and> parse (StartTime s) = None \<longrightarrow>
      (\<exists>e. pitchers_dk parse rnd Keys pitchers oddsDat TeamKeys draftables = Inl e)) \<and>
   (s \<in> set draftables \<and> is_pitcher_slot s \<and> parse (StartTime s) = Some t \<and>
    Games (slot_sim Keys pitchers s) = pre @ g # post \<and>
    (\<forall>g' \<in> set pre. \<not> qualifies parse t g') \<and> parse (GameDate g) = None \<longrightarrow>
      (\<exists>e. pitchers_dk parse rnd Keys pitchers oddsDat TeamKeys draftables = Inl e)) \<and>
   (a \<in> set athActs \<and> parse (ActivitySummary.StartDateLocal a) = None \<longrightarrow>
      getStravaData parse athActs = Inl ParseError)"
proof (intro conjI impI)
  show "\<exists>e. pitchers_dk parse rnd Keys pitchers oddsDat TeamKeys draftables = Inl e"
    if "s \<in> set draftables \<and> is_pitcher_slot s \<and> parse (StartTime s) = None"
  proof (rule pitchers_dk_aborts)
    show "s \<in> set draftables" using that by simp
    show "\<exists>e. pitcher_slot parse rnd Keys pitchers oddsDat TeamKeys s st = Inl e" for st
      using that pitcher_slot_start_fails by blast
  qed
  show "\<exists>e. pitchers_dk parse rnd Keys pitchers oddsDat TeamKeys draftables = Inl e"
    if "s \<in> set draftables \<and> is_pitcher_slot s \<and> parse (StartTime s) = Some t \<and>
        Games (slot_sim Keys pitchers s) = pre @ g # post \<and>
        (\<forall>g' \<in> set pre. \<not> qualifies parse t g') \<and> parse (GameDate g) = None"
  proof (rule pitchers_dk_aborts)
    show "s \<in> set draftables" using that by simp
    show "\<exists>e. pitcher_slot parse rnd Keys pitchers oddsDat TeamKeys s st = Inl e" for st
      by (rule pitcher_slot_date_fails [of s parse t Keys pitchers pre g post]) (use that in auto)
  qed
  show "getStravaData parse athActs = Inl ParseError"
    if "a \<in> set athActs \<and> parse (ActivitySummary.StartDateLocal a) = None"
    using that activities_loop_aborts [of a athActs parse "[]"] by (simp add: getStravaData_def)
qed

theorem parse_failure_aborts_witness:
  "pitchers_dk ex_parse Finite ex_keys (ex_pitchers []) ex_odds ex_teams
     [ex_pitcher_slot ''A'' ''SP'' ''2023-07-01T17:00:00Z'' [\<lparr>Id_attr = 1, Value_attr = ''true''\<rparr>],
      ex_pitcher_slot ''B'' ''RP'' ''tomorrow'' []] = Inl ParseError \<and>
   pitchers_dk ex_parse Finite ex_keys
     (ex_pitchers [ex_game ''2023-06-30T23:05:00Z'' 143, ex_game ''tomorrow'' 143]) ex_odds ex_teams
     [ex_pitcher_slot ''A'' ''SP'' ''2023-07-01T17:00:00Z'' [\<lparr>Id_attr = 1, Value_attr = ''true''\<rparr>]]
     = Inl ParseError \<and>
   getStravaData ex_parse
     [\<lparr>ActivitySummary.Distance = 5000, ActivitySummary.MovingTime = 1500,
       ActivitySummary.StartDate = ''2023-07-01T17:00:00Z'',
       ActivitySummary.StartDateLocal = ''2023-07-01T17:00:00Z'',
       ActivitySummary.TimeZone = ''UTC'', ActivitySummary.UtcOffset = 0\<rparr>,
      \<lparr>ActivitySummary.Distance = 5000, ActivitySummary.MovingTime = 1500,
       ActivitySummary.StartDate = ''tomorrow'', ActivitySummary.StartDateLocal = ''tomorrow'',
       ActivitySummary.TimeZone = ''UTC'', ActivitySummary.UtcOffset = 0\<rparr>] = Inl ParseError"
proof -
  let ?A = "ex_pitcher_slot ''A'' ''SP'' ''2023-07-01T17:00:00Z'' [\<lparr>Id_attr = 1, Value_attr = ''true''\<rparr>]"
  let ?B = "ex_pitcher_slot ''B'' ''RP'' ''tomorrow'' []"
  let ?ledger = "[ex_game ''2023-06-30T23:05:00Z'' 143, ex_game ''tomorrow'' 143]"
  let ?bad = "\<lparr>ActivitySummary.Distance = 5000, ActivitySummary.MovingTime = 1500,
       ActivitySummary.StartDate = ''tomorrow'', ActivitySummary.StartDateLocal = ''tomorrow'',
       ActivitySummary.TimeZone = ''UTC'', ActivitySummary.UtcOffset = 0\<rparr>"
  let ?good = "\<lparr>ActivitySummary.Distance = 5000, ActivitySummary.MovingTime = 1500,
       ActivitySummary.StartDate = ''2023-07-01T17:00:00Z'',
       ActivitySummary.StartDateLocal = ''2023-07-01T17:00:00Z'',
       ActivitySummary.TimeZone = ''UTC'', ActivitySummary.UtcOffset = 0\<rparr>"
  have a: "\<exists>e. pitchers_dk ex_parse Finite ex_keys (ex_pitchers []) ex_odds ex_teams [?A, ?B] = Inl e"
    by (rule parse_failure_aborts [THEN conjunct1, rule_format, where s = ?B])
       (simp add: ex_parse_def ex_pitcher_slot_def is_pitcher_slot_def)
  have b: "\<exists>e. pitchers_dk ex_parse Finite ex_keys (ex_pitchers ?ledger) ex_odds ex_teams [?A] = Inl e"
    by (rule parse_failure_aborts [THEN conjunct2, THEN conjunct1, rule_format,
          where s = ?A and t = 1688230800000000000 and pre = "[ex_game ''2023-06-30T23:05:00Z'' 143]"
            and g = "ex_game ''tomorrow'' 143" and post = "[]"])
       (simp add: ex_parse_def ex_pitcher_slot_def is_pitcher_slot_def slot_sim_def ex_keys_def
          Keys_at_def ex_pitchers_def pitchers_at_def sprint_int_examples qualifies_def ex_game_def
          time_Hour_def)
  have c: "getStravaData ex_parse [?good, ?bad] = Inl ParseError"
    by (rule parse_failure_aborts [THEN conjunct2, THEN conjunct2, rule_format, where a = ?bad])
       (simp add: ex_parse_def)
  from a b c show ?thesis
    by (simp add: ex_simps)
qed

text \<open>
  C9 as stated fails for a timestamp the branch never parses: the start time of a slot
  that the position filter skips, and the game date of a ledger entry after the game
  taken. In both runs the output is produced.
\<close>

theorem parse_failure_not_reached_counterexample:
  "ex_parse (StartTime (ex_pitcher_slot ''C'' ''OF'' ''tomorrow'' [])) = None \<and>
   pitchers_dk ex_parse Finite ex_keys (ex_pitchers []) ex_odds ex_teams
     [ex_pitcher_slot ''C'' ''OF'' ''tomorrow'' []] = Inr [] \<and>
   ex_parse (GameDate (ex_game ''tomorrow'' 143)) = None \<and>
   map_sum id (map Pitcher.Full_name)
     (pitchers_dk ex_parse Finite ex_keys
        (ex_pitchers [ex_game ''2023-07-01T23:05:00Z'' 143, ex_game ''tomorrow'' 143])
        ex_odds ex_teams
        [ex_pitcher_slot ''A'' ''SP'' ''2023-07-01T17:00:00Z''
           [\<lparr>Id_attr = 1, Value_attr = ''true''\<rparr>]]) = Inr [''A'']"
  by (simp add: ex_simps)








lemma sprint_int_examples3:
  "sprint_int 8 = ''8''" "sprint_int 43 = ''43''"
  by (simp_all add: sprint_int_def sprint_nat.simps digit_char_def)

text \<open>
  The histogram field is not among the fields reset before the scan: a slot with no
  qualifying entry carries the histogram of the slot processed before it.
\<close>

lemma stale_histogram_example:
  "map_sum id (map (\<lambda>p. (Pitcher.Full_name p, Pitcher.Game_gameDate p, Pitcher.ProjPointsList p)))
     (pitchers_dk ex_parse Finite
        (ex_keys(''8'' \<mapsto> \<lparr>PlayerID = 43, Dkid = 8, Fdid = []\<rparr>))
        (ex_pitchers [ex_game ''2023-07-01T23:05:00Z'' 143]) ex_odds ex_teams
        [ex_pitcher_slot ''A'' ''SP'' ''2023-07-01T17:00:00Z''
           [\<lparr>Id_attr = 1, Value_attr = ''true''\<rparr>],
         (ex_pitcher_slot ''B'' ''SP'' ''2023-07-01T17:00:00Z''
           [\<lparr>Id_attr = 1, Value_attr = ''true''\<rparr>])\<lparr>PlayerDkId := 8\<rparr>]) =
   Inr [(''A'', ''2023-07-01T23:05:00Z'', [2, 1, 1, 0, 0, 0, 0, 1]),
        (''B'', [], [2, 1, 1, 0, 0, 0, 0, 1])]"
  by (simp add: ex_simps points_histogram_def tempPointsList_def zero_counters_def
      count_value_def sprint_int_examples3)

text \<open>
  C7 (as amended). When the team's average is zero (as it is for a team with no entry in
  the table of averages) the division is not guarded: the scan raises no fault and
  records as the odds factor the IEEE quotient, an infinity with the sign of the implied
  points, or NaN when the implied points are zero too; the factor is no finite number, so
  in particular not zero.
\<close>

theorem odds_factor_zero_average:
  assumes "Avg_points (TeamKeys_at TeamKeys tmpTeamId) = 0"
    and "odds_Games oddsDat tmpTeamId = e0 # rest"
    and "After gameTime (time_Unix (Commence_time e0))"
    and "odds_Games oddsDat (sprint_int (Opponent g)) = opp # opps"
  shows "\<exists>fp'. odds_scan rnd oddsDat TeamKeys tmpTeamId g gameTime fp = Inr fp' \<and>
           Pitcher.Game_player_oddsfactor fp' =
             (if Points e0 = 0 then NaN else if 0 < Points e0 then PosInf else NegInf) \<and>
           (\<forall>x. Pitcher.Game_player_oddsfactor fp' \<noteq> Finite x)"
  using assms by (simp add: odds_scan_def float64_div_def)

theorem odds_factor_zero_average_witness:
  "map_sum id Pitcher.Game_player_oddsfactor
     (odds_scan Finite ex_odds Map.empty ''121'' (ex_game ''2023-07-01T23:05:00Z'' 143)
        1688256300000000000 zero_Pitcher) = Inr PosInf"
proof -
  have a: "Avg_points (TeamKeys_at Map.empty ''121'') = 0"
    by (simp add: TeamKeys_at_def)
  have o: "odds_Games ex_odds ''121'' =
      \<lparr>Commence_time = 1688252400, Points = 9 / 2\<rparr> # [\<lparr>Commence_time = 1688338800, Points = 4\<rparr>]"
    by (simp add: ex_simps)
  have t: "After 1688256300000000000 (time_Unix (Commence_time \<lparr>Commence_time = 1688252400, Points = 9 / 2\<rparr>))"
    by (simp add: After_def time_Unix_def)
  have p: "odds_Games ex_odds (sprint_int (Opponent (ex_game ''2023-07-01T23:05:00Z'' 143))) =
      \<lparr>Commence_time = 1688252400, Points = 7 / 2\<rparr> # []"
    by (simp add: ex_simps)
  from odds_factor_zero_average [OF a o t p, of Finite zero_Pitcher] show ?thesis
    by auto
qed

text \<open>
  C7 as stated fails: for a team with no entry in the table of averages the record
  emitted has the odds factor \<open>+Inf\<close>, not zero.
\<close>

theorem odds_factor_unguarded_counterexample:
  "Avg_points (TeamKeys_at Map.empty ''121'') = 0 \<and>
   map_sum id (map Pitcher.Game_player_oddsfactor)
     (pitchers_dk ex_parse Finite ex_keys (ex_pitchers [ex_game ''2023-07-01T23:05:00Z'' 143])
        ex_odds Map.empty
        [ex_pitcher_slot ''A'' ''SP'' ''2023-07-01T17:00:00Z''
           [\<lparr>Id_attr = 1, Value_attr = ''true''\<rparr>]]) = Inr [PosInf] \<and>
   PosInf \<noteq> Finite 0"
  by (simp add: ex_simps)

end
